theory Spec2Isabelle
  imports Main "HOL-Library.Log_Nat"
begin

section \<open>Invoice form actions (\<^verbatim>\<open>app/lib/actions.ts\<close>)\<close>

text \<open>
  The module exports three server actions, \<^verbatim>\<open>createInvoice\<close>, \<^verbatim>\<open>updateInvoice\<close> and
  \<^verbatim>\<open>deleteInvoice\<close>. Each reads its arguments, talks to the relational store through the
  tagged template \<^verbatim>\<open>sql\<close>, marks the listing page stale with \<^verbatim>\<open>revalidatePath\<close> and (create
  and update only) leaves through \<^verbatim>\<open>redirect\<close>. The source file holds two snapshots of the
  module. The later one defines all three actions, with \<^verbatim>\<open>try\<close>/\<^verbatim>\<open>catch\<close> around the insert
  and the update; it is the module as it stands, and the theorems are about it. The earlier
  one is embedded beside it for comparison.

  The embedding is shallow: JavaScript numbers are IEEE 754 doubles given by their exact
  rational value, form fields are strings or absent, the store is a list of rows, effects are
  appended to an event list that is passed through every call, and exceptions are values.
\<close>

subsection \<open>JavaScript numbers\<close>

text \<open>
  A Number is a finite double, one of the two infinities, or NaN. A finite double is kept as
  the rational it denotes; the two zeros are identified (the store receives the text
  \<^verbatim>\<open>0\<close> for both). \<open>round_double\<close> is IEEE 754 round-to-nearest, ties-to-even, to
  binary64: 53 significant bits, least exponent \<open>-1074\<close>, overflow above
  \<open>(2^53 - 1) * 2^971\<close>.
\<close>

datatype number = Fin rat | PosInf | NegInf | NaN

definition pow2 :: "int \<Rightarrow> rat" where
  "pow2 k = (if 0 \<le> k then 2 ^ nat k else 1 / 2 ^ nat (- k))"

definition ilog2 :: "int \<Rightarrow> int \<Rightarrow> int" where
  \<comment> \<open>\<open>\<lfloor>log\<^sub>2 (p / q)\<rfloor>\<close> for positive \<open>p\<close>, \<open>q\<close>\<close>
  "ilog2 p q =
     (let k = bitlen p - bitlen q
      in if q * 2 ^ nat k \<le> p * 2 ^ nat (- k) then k else k - 1)"

definition rnd_even :: "int \<Rightarrow> int \<Rightarrow> int" where
  \<comment> \<open>the integer nearest to \<open>n / d\<close>, the even one on a tie\<close>
  "rnd_even n d =
     (let f = n div d; r = n mod d
      in if 2 * r < d then f else if d < 2 * r then f + 1
         else if even f then f else f + 1)"

definition round_frac :: "int \<Rightarrow> int \<Rightarrow> (int \<times> int) option" where
  \<comment> \<open>\<open>Some (m, e)\<close>: the double nearest to \<open>p / q\<close> is \<open>m * 2^e\<close>; \<open>None\<close>: overflow\<close>
  "round_frac p q =
     (let e = max (ilog2 p q - 52) (- 1074);
          m = rnd_even (p * 2 ^ nat (- e)) (q * 2 ^ nat e)
      in if 971 < e \<or> (e = 971 \<and> m = 2 ^ 53) then None else Some (m, e))"

definition round_double :: "rat \<Rightarrow> number" where
  "round_double x =
     (if x = 0 then Fin 0
      else let (a, b) = quotient_of x
           in case round_frac \<bar>a\<bar> b of
                None \<Rightarrow> (if 0 < x then PosInf else NegInf)
              | Some (m, e) \<Rightarrow> Fin (sgn x * of_int m * pow2 e))"

fun js_mul :: "number \<Rightarrow> number \<Rightarrow> number" where
  \<comment> \<open>the operator \<^verbatim>\<open>*\<close> on Numbers\<close>
  "js_mul NaN _ = NaN"
| "js_mul _ NaN = NaN"
| "js_mul (Fin a) (Fin b) = round_double (a * b)"
| "js_mul (Fin a) PosInf = (if a = 0 then NaN else if 0 < a then PosInf else NegInf)"
| "js_mul (Fin a) NegInf = (if a = 0 then NaN else if 0 < a then NegInf else PosInf)"
| "js_mul PosInf (Fin b) = (if b = 0 then NaN else if 0 < b then PosInf else NegInf)"
| "js_mul NegInf (Fin b) = (if b = 0 then NaN else if 0 < b then NegInf else PosInf)"
| "js_mul PosInf PosInf = PosInf"
| "js_mul PosInf NegInf = NegInf"
| "js_mul NegInf PosInf = NegInf"
| "js_mul NegInf NegInf = PosInf"

subsection \<open>\<^verbatim>\<open>Number(value)\<close> on form values\<close>

text \<open>
  \<^verbatim>\<open>formData.get(name)\<close> yields a string, a \<^verbatim>\<open>File\<close>, or \<^verbatim>\<open>null\<close> when the field is absent.
  Strings are lists of code units below 256. \<^verbatim>\<open>Number(null)\<close> is \<open>0\<close>, a \<^verbatim>\<open>File\<close> converts
  to NaN (through its string form \<^verbatim>\<open>[object File]\<close>), and a string goes through \<open>StringToNumber\<close>:
  white space is trimmed, the empty string is \<open>0\<close>, then an optionally signed decimal
  literal (with optional fraction and exponent) or \<^verbatim>\<open>Infinity\<close>, or an unsigned literal in
  radix 16, 8 or 2; anything else is NaN. The mathematical value is rounded to the nearest
  double. (For a literal of more than 20 significant digits the language lets an engine
  round from its first 20; the model rounds the full value, as the engines in use do.)
\<close>

datatype form_value = Null | Str string | File

definition is_white :: "char \<Rightarrow> bool" where
  "is_white c = (c \<in> set [CHR 0x09, CHR 0x0A, CHR 0x0B, CHR 0x0C, CHR 0x0D, CHR 0x20, CHR 0xA0])"

definition trim :: "string \<Rightarrow> string" where
  "trim s = rev (dropWhile is_white (rev (dropWhile is_white s)))"

definition digit_table :: "(char \<times> int) list" where
  "digit_table =
     zip ''0123456789abcdefABCDEF''
       [0, 1, 2, 3, 4, 5, 6, 7, 8, 9, 10, 11, 12, 13, 14, 15, 10, 11, 12, 13, 14, 15]"

definition digit_in :: "int \<Rightarrow> char \<Rightarrow> int option" where
  "digit_in b c =
     (case map_of digit_table c of
        None \<Rightarrow> None
      | Some d \<Rightarrow> if d < b then Some d else None)"

definition is_digit :: "char \<Rightarrow> bool" where
  "is_digit c = (digit_in 10 c \<noteq> None)"

fun digits_in :: "int \<Rightarrow> int \<Rightarrow> string \<Rightarrow> int option" where
  "digits_in b acc [] = Some acc"
| "digits_in b acc (c # cs) =
     (case digit_in b c of
        None \<Rightarrow> None
      | Some d \<Rightarrow> digits_in b (acc * b + d) cs)"

definition radix_literal :: "int \<Rightarrow> string \<Rightarrow> number" where
  \<comment> \<open>the digits after \<^verbatim>\<open>0x\<close>, \<^verbatim>\<open>0o\<close> or \<^verbatim>\<open>0b\<close>: at least one, all of the radix\<close>
  "radix_literal b ds =
     (if ds = [] then NaN
      else case digits_in b 0 ds of
             None \<Rightarrow> NaN
           | Some n \<Rightarrow> round_double (of_int n))"

definition exponent_part :: "string \<Rightarrow> int option" where
  \<comment> \<open>what follows the mantissa: nothing, or \<^verbatim>\<open>e\<close>/\<^verbatim>\<open>E\<close>, an optional sign and digits\<close>
  "exponent_part r =
     (case r of
        [] \<Rightarrow> Some 0
      | c # r' \<Rightarrow>
          if c = CHR ''e'' \<or> c = CHR ''E'' then
            (case r' of
               [] \<Rightarrow> None
             | d # ds \<Rightarrow>
                 if d = CHR ''-'' then
                   (if ds = [] then None else map_option uminus (digits_in 10 0 ds))
                 else if d = CHR ''+'' then
                   (if ds = [] then None else digits_in 10 0 ds)
                 else digits_in 10 0 (d # ds))
          else None)"

definition unsigned_decimal :: "string \<Rightarrow> rat option" where
  "unsigned_decimal r =
     (let ip = takeWhile is_digit r;
          r1 = dropWhile is_digit r;
          fp = (case r1 of [] \<Rightarrow> [] | c # r' \<Rightarrow> if c = CHR ''.'' then takeWhile is_digit r' else []);
          r2 = (case r1 of [] \<Rightarrow> [] | c # r' \<Rightarrow> if c = CHR ''.'' then dropWhile is_digit r' else r1)
      in if ip = [] \<and> fp = [] then None
         else case (digits_in 10 0 (ip @ fp), exponent_part r2) of
                (Some m, Some ex) \<Rightarrow>
                  (let k = ex - int (length fp)
                   in Some (if 0 \<le> k then of_int (m * 10 ^ nat k)
                            else of_int m / of_int (10 ^ nat (- k))))
              | _ \<Rightarrow> None)"

definition signed_decimal :: "string \<Rightarrow> number" where
  "signed_decimal t =
     (let neg = (case t of [] \<Rightarrow> False | c # _ \<Rightarrow> c = CHR ''-'');
          r = (case t of [] \<Rightarrow> [] | c # r' \<Rightarrow> if c = CHR ''-'' \<or> c = CHR ''+'' then r' else t)
      in if r = ''Infinity'' then (if neg then NegInf else PosInf)
         else case unsigned_decimal r of
                None \<Rightarrow> NaN
              | Some v \<Rightarrow> round_double (if neg then - v else v))"

definition StringToNumber :: "string \<Rightarrow> number" where
  "StringToNumber s =
     (let t = trim s
      in if t = [] then Fin 0
         else case t of
                c # x # ds \<Rightarrow>
                  if c = CHR ''0'' \<and> (x = CHR ''x'' \<or> x = CHR ''X'') then radix_literal 16 ds
                  else if c = CHR ''0'' \<and> (x = CHR ''o'' \<or> x = CHR ''O'') then radix_literal 8 ds
                  else if c = CHR ''0'' \<and> (x = CHR ''b'' \<or> x = CHR ''B'') then radix_literal 2 ds
                  else signed_decimal t
              | _ \<Rightarrow> signed_decimal t)"

fun Number :: "form_value \<Rightarrow> number" where
  "Number Null = Fin 0"
| "Number (Str s) = StringToNumber s"
| "Number File = NaN"

subsection \<open>The validation schema\<close>

text \<open>
  \<^verbatim>\<open>FormSchema\<close> is \<^verbatim>\<open>z.object({id: z.string(), customerId: z.string(),
  amount: z.coerce.number(), status: z.enum(["pending", "paid"]), date: z.string()})\<close>;
  \<^verbatim>\<open>CreateInvoice\<close> and \<^verbatim>\<open>UpdateInvoice\<close> are both
  \<^verbatim>\<open>FormSchema.omit({id: true, date: true})\<close>, an object schema with the three fields
  \<^verbatim>\<open>customerId\<close>, \<^verbatim>\<open>amount\<close>, \<^verbatim>\<open>status\<close>. Parsing an object validates every field, collects
  the names of the fields that fail, and throws one \<^verbatim>\<open>ZodError\<close> when that list is not empty.

  \<^verbatim>\<open>z.coerce.number()\<close> applies \<^verbatim>\<open>Number\<close> to its input and refuses NaN. Whether it also
  refuses the infinities depends on the major version of the library (3 accepts them, 4
  does not); the environment's flag \<open>finite_only\<close> says which.
\<close>

datatype error = ZodError "string list" | PersistenceError string

definition z_string :: "form_value \<Rightarrow> string option" where
  "z_string v = (case v of Str s \<Rightarrow> Some s | _ \<Rightarrow> None)"

definition z_coerce_number :: "bool \<Rightarrow> form_value \<Rightarrow> number option" where
  "z_coerce_number fin v =
     (let n = Number v
      in if n = NaN then None
         else if fin \<and> (n = PosInf \<or> n = NegInf) then None
         else Some n)"

definition z_enum :: "string list \<Rightarrow> form_value \<Rightarrow> string option" where
  "z_enum lits v = (case v of Str s \<Rightarrow> if s \<in> set lits then Some s else None | _ \<Rightarrow> None)"

definition issues :: "bool \<Rightarrow> form_value \<Rightarrow> form_value \<Rightarrow> form_value \<Rightarrow> string list" where
  \<comment> \<open>the fields of \<^verbatim>\<open>FormSchema.omit({id, date})\<close> that fail, in the schema's order\<close>
  "issues fin c a s =
     (if z_string c = None then [''customerId''] else []) @
     (if z_coerce_number fin a = None then [''amount''] else []) @
     (if z_enum [''pending'', ''paid''] s = None then [''status''] else [])"

definition schema_parse ::
  "bool \<Rightarrow> form_value \<Rightarrow> form_value \<Rightarrow> form_value \<Rightarrow> error + (string \<times> number \<times> string)" where
  \<comment> \<open>\<^verbatim>\<open>FormSchema.omit({id: true, date: true}).parse({customerId, amount, status})\<close>\<close>
  "schema_parse fin c a s =
     (case (z_string c, z_coerce_number fin a, z_enum [''pending'', ''paid''] s) of
        (Some customerId, Some amount', Some status') \<Rightarrow> Inr (customerId, amount', status')
      | _ \<Rightarrow> Inl (ZodError (issues fin c a s)))"

definition CreateInvoice_parse ::
  "bool \<Rightarrow> form_value \<Rightarrow> form_value \<Rightarrow> form_value \<Rightarrow> error + (string \<times> number \<times> string)" where
  "CreateInvoice_parse = schema_parse"

definition UpdateInvoice_parse ::
  "bool \<Rightarrow> form_value \<Rightarrow> form_value \<Rightarrow> form_value \<Rightarrow> error + (string \<times> number \<times> string)" where
  "UpdateInvoice_parse = schema_parse"

subsection \<open>Form data\<close>

text \<open>
  A \<^verbatim>\<open>FormData\<close> is a list of named entries; \<^verbatim>\<open>get\<close> returns the first entry of that name,
  or \<^verbatim>\<open>null\<close>.
\<close>

type_synonym form_data = "(string \<times> form_value) list"

definition get :: "form_data \<Rightarrow> string \<Rightarrow> form_value" where
  "get formData name = (case map_of formData name of None \<Rightarrow> Null | Some v \<Rightarrow> v)"

subsection \<open>\<^verbatim>\<open>new Date().toISOString().split("T")[0]\<close>\<close>

text \<open>
  The clock is read once; its reading is given by its UTC fields. \<^verbatim>\<open>toISOString\<close> prints
  \<^verbatim>\<open>YYYY-MM-DDTHH:mm:ss.sssZ\<close>, with the year as four digits from 0 to 9999 and as a sign
  and six digits outside that range. \<^verbatim>\<open>split("T")[0]\<close> is the text before the first
  \<^verbatim>\<open>T\<close>.
\<close>

record utc_time =
  year :: int
  month :: nat
  day :: nat
  hours :: nat
  minutes :: nat
  seconds :: nat
  millis :: nat

definition digit_char :: "nat \<Rightarrow> char" where
  "digit_char d = ''0123456789'' ! (d mod 10)"

fun dec :: "nat \<Rightarrow> string" where
  "dec n = (if n < 10 then [digit_char n] else dec (n div 10) @ [digit_char n])"

definition pad :: "nat \<Rightarrow> nat \<Rightarrow> string" where
  "pad w n = replicate (w - length (dec n)) (CHR ''0'') @ dec n"

definition year_string :: "int \<Rightarrow> string" where
  "year_string y =
     (if 0 \<le> y \<and> y \<le> 9999 then pad 4 (nat y)
      else (if y < 0 then ''-'' else ''+'') @ pad 6 (nat \<bar>y\<bar>))"

definition toISOString :: "utc_time \<Rightarrow> string" where
  "toISOString t =
     year_string (year t) @ ''-'' @ pad 2 (month t) @ ''-'' @ pad 2 (day t) @ ''T'' @
     pad 2 (hours t) @ '':'' @ pad 2 (minutes t) @ '':'' @ pad 2 (seconds t) @ ''.'' @
     pad 3 (millis t) @ ''Z''"

definition split_T_first :: "string \<Rightarrow> string" where
  "split_T_first s = takeWhile (\<lambda>c. c \<noteq> CHR ''T'') s"

subsection \<open>The store, the environment and the effects\<close>

text \<open>
  The table \<^verbatim>\<open>invoices\<close> is a list of rows. One call of \<^verbatim>\<open>sql\<close> runs one statement: it
  either raises (the environment's \<open>store_fault\<close> decides, from the statement and the table:
  lost connection, violated constraint, rejected value) and leaves the table as it was, or
  applies the statement. The store chooses the \<^verbatim>\<open>id\<close> of an inserted row.

  Every call that reaches outside the action is recorded, in order, in \<open>events\<close>.
  \<^verbatim>\<open>redirect\<close> does not return: the action ends there with the outcome \<open>Redirected\<close>.
  An error that leaves the action gives the outcome \<open>Thrown\<close>. In the actions below, a local
  variable that shares its name with a column carries a prime.
\<close>

record invoice =
  invoice_id :: string
  customer_id :: string
  amount :: number
  status :: string
  date :: string

datatype statement =
    INSERT string number string string
  | UPDATE string number string string
  | DELETE string

datatype event =
    Sql statement
  | ConsoleError error
  | RevalidatePath string
  | Redirect string

datatype outcome = Returned | Redirected string | Thrown error

record world =
  invoices :: "invoice list"
  events :: "event list"

record env =
  now :: utc_time
  store_fault :: "statement \<Rightarrow> invoice list \<Rightarrow> string option"
  fresh_id :: "invoice list \<Rightarrow> string"
  finite_only :: bool

fun run_statement :: "env \<Rightarrow> statement \<Rightarrow> invoice list \<Rightarrow> invoice list" where
  "run_statement e (INSERT customerId amountInCents st d) rows =
     rows @ [\<lparr>invoice_id = fresh_id e rows, customer_id = customerId, amount = amountInCents,
              status = st, date = d\<rparr>]"
| "run_statement e (UPDATE customerId amountInCents st i) rows =
     map (\<lambda>r. if invoice_id r = i
              then r\<lparr>customer_id := customerId, amount := amountInCents, status := st\<rparr>
              else r) rows"
| "run_statement e (DELETE i) rows = filter (\<lambda>r. invoice_id r \<noteq> i) rows"

definition sql :: "env \<Rightarrow> statement \<Rightarrow> world \<Rightarrow> error option \<times> world" where
  \<comment> \<open>\<open>Some err\<close>: the awaited query rejected with \<open>err\<close>\<close>
  "sql e q w =
     (let w' = w\<lparr>events := events w @ [Sql q]\<rparr>
      in case store_fault e q (invoices w) of
           Some msg \<Rightarrow> (Some (PersistenceError msg), w')
         | None \<Rightarrow> (None, w'\<lparr>invoices := run_statement e q (invoices w)\<rparr>))"

definition console_error :: "error \<Rightarrow> world \<Rightarrow> world" where
  "console_error err w = w\<lparr>events := events w @ [ConsoleError err]\<rparr>"

definition revalidatePath :: "string \<Rightarrow> world \<Rightarrow> world" where
  "revalidatePath p w = w\<lparr>events := events w @ [RevalidatePath p]\<rparr>"

definition redirect :: "string \<Rightarrow> world \<Rightarrow> outcome \<times> world" where
  "redirect p w = (Redirected p, w\<lparr>events := events w @ [Redirect p]\<rparr>)"

subsection \<open>The three actions\<close>

definition createInvoice :: "env \<Rightarrow> form_data \<Rightarrow> world \<Rightarrow> outcome \<times> world" where
  "createInvoice e formData w =
     (case CreateInvoice_parse (finite_only e)
             (get formData ''customerId'') (get formData ''amount'') (get formData ''status'') of
        Inl err \<Rightarrow> (Thrown err, w)
      | Inr (customerId, amount', status') \<Rightarrow>
          (let amountInCents = js_mul amount' (Fin 100);
               date' = split_T_first (toISOString (now e));
               w1 = (case sql e (INSERT customerId amountInCents status' date') w of
                       (Some err, w') \<Rightarrow> console_error err w'
                     | (None, w') \<Rightarrow> w');
               w2 = revalidatePath ''/dashboard/invoices'' w1
           in redirect ''/dashboard/invoices'' w2))"

definition updateInvoice :: "env \<Rightarrow> string \<Rightarrow> form_data \<Rightarrow> world \<Rightarrow> outcome \<times> world" where
  "updateInvoice e i formData w =
     (case UpdateInvoice_parse (finite_only e)
             (get formData ''customerId'') (get formData ''amount'') (get formData ''status'') of
        Inl err \<Rightarrow> (Thrown err, w)
      | Inr (customerId, amount', status') \<Rightarrow>
          (let amountInCents = js_mul amount' (Fin 100);
               w1 = (case sql e (UPDATE customerId amountInCents status' i) w of
                       (Some err, w') \<Rightarrow> console_error err w'
                     | (None, w') \<Rightarrow> w');
               w2 = revalidatePath ''/dashboard/invoices'' w1
           in redirect ''/dashboard/invoices'' w2))"

definition deleteInvoice :: "env \<Rightarrow> string \<Rightarrow> world \<Rightarrow> outcome \<times> world" where
  "deleteInvoice e i w =
     (case sql e (DELETE i) w of
        (Some err, w') \<Rightarrow> (Thrown err, w')
      | (None, w') \<Rightarrow> (Returned, revalidatePath ''/dashboard/invoices'' w'))"

text \<open>
  The earlier snapshot of the module has only \<^verbatim>\<open>createInvoice\<close>, with the insert awaited
  outside any \<^verbatim>\<open>try\<close>: there an error of the store leaves the action at once.
\<close>

definition createInvoice_earlier :: "env \<Rightarrow> form_data \<Rightarrow> world \<Rightarrow> outcome \<times> world" where
  "createInvoice_earlier e formData w =
     (case CreateInvoice_parse (finite_only e)
             (get formData ''customerId'') (get formData ''amount'') (get formData ''status'') of
        Inl err \<Rightarrow> (Thrown err, w)
      | Inr (customerId, amount', status') \<Rightarrow>
          (let amountInCents = js_mul amount' (Fin 100);
               date' = split_T_first (toISOString (now e))
           in case sql e (INSERT customerId amountInCents status' date') w of
                (Some err, w') \<Rightarrow> (Thrown err, w')
              | (None, w') \<Rightarrow>
                  redirect ''/dashboard/invoices'' (revalidatePath ''/dashboard/invoices'' w')))"

subsection \<open>The rounding rule of the specification\<close>

text \<open>
  The specification gives the persisted amount as \<open>round (amount * 100)\<close>. Written with the
  operations of the language, that is \<^verbatim>\<open>Math.round(amount * 100)\<close>: the nearest integer,
  the upper one on a tie; NaN and the infinities are left as they are. The actions do not
  call it; it is defined here to be compared with what they store.
\<close>

definition Math_round :: "number \<Rightarrow> number" where
  "Math_round n = (case n of Fin r \<Rightarrow> Fin (of_int (round r)) | _ \<Rightarrow> n)"

definition spec_persisted_amount :: "number \<Rightarrow> number" where
  "spec_persisted_amount a = Math_round (js_mul a (Fin 100))"

subsection \<open>Example inputs\<close>

text \<open>
  Concrete forms, clocks, stores and tables on which the theorems below are instantiated.
\<close>

definition form :: "string \<Rightarrow> string \<Rightarrow> string \<Rightarrow> form_data" where
  "form c a s = [(''customerId'', Str c), (''amount'', Str a), (''status'', Str s)]"

definition no_fault :: "statement \<Rightarrow> invoice list \<Rightarrow> string option" where
  "no_fault q rows = None"

definition connection_lost :: "statement \<Rightarrow> invoice list \<Rightarrow> string option" where
  "connection_lost q rows = Some ''ECONNREFUSED''"

definition next_id :: "invoice list \<Rightarrow> string" where
  "next_id rows = ''inv'' @ dec (Suc (length rows))"

definition clock :: utc_time where
  "clock = \<lparr>year = 2026, month = 11, day = 3, hours = 23, minutes = 59, seconds = 7,
            millis = 42\<rparr>"

definition env_up :: env where
  "env_up = \<lparr>now = clock, store_fault = no_fault, fresh_id = next_id, finite_only = False\<rparr>"

definition env_down :: env where
  "env_down = \<lparr>now = clock, store_fault = connection_lost, fresh_id = next_id,
               finite_only = False\<rparr>"

definition inv1 :: invoice where
  "inv1 = \<lparr>invoice_id = ''inv1'', customer_id = ''c1'', amount = Fin 5000,
           status = ''pending'', date = ''2026-10-31''\<rparr>"

definition no_rows :: world where
  "no_rows = \<lparr>invoices = [], events = []\<rparr>"

definition one_row :: world where
  "one_row = \<lparr>invoices = [inv1], events = []\<rparr>"

section \<open>Evaluation of the actions\<close>

declare dec.simps [simp del]

declare js_mul.simps [simp del]

subsection \<open>The field validators\<close>

lemma z_enum_status:
  "(z_enum [''pending'', ''paid''] v \<noteq> None) = (v = Str ''pending'' \<or> v = Str ''paid'')"
  by (cases v) (auto simp: z_enum_def)

lemma z_string_iff: "(z_string v = None) = (v = Null \<or> v = File)"
  by (cases v) (simp_all add: z_string_def)

lemma coerce_number_neq_NaN: "z_coerce_number fin v = Some a \<Longrightarrow> a = Number v \<and> a \<noteq> NaN"
  by (auto simp: z_coerce_number_def Let_def split: if_splits)

lemma schema_parse_Inr_iff:
  "(schema_parse fin c a s = Inr (c', a', s')) =
     (z_string c = Some c' \<and> z_coerce_number fin a = Some a' \<and>
      z_enum [''pending'', ''paid''] s = Some s')"
  by (auto simp: schema_parse_def split: option.splits)

lemma schema_parse_Inl_iff:
  "(schema_parse fin c a s = Inl err) =
     (err = ZodError (issues fin c a s) \<and> issues fin c a s \<noteq> [])"
  by (auto simp: schema_parse_def issues_def split: option.splits)

lemma customerId_issue:
  "(''customerId'' \<in> set (issues fin c a s)) = (z_string c = None)"
  by (simp add: issues_def)

lemma amount_issue:
  "(''amount'' \<in> set (issues fin c a s)) = (z_coerce_number fin a = None)"
  by (simp add: issues_def)

subsection \<open>What each action returns\<close>

lemma createInvoice_invalid:
  "schema_parse (finite_only e) (get fd ''customerId'') (get fd ''amount'') (get fd ''status'') = Inl err
   \<Longrightarrow> createInvoice e fd w = (Thrown err, w)"
  by (simp add: createInvoice_def CreateInvoice_parse_def)

lemma updateInvoice_invalid:
  "schema_parse (finite_only e) (get fd ''customerId'') (get fd ''amount'') (get fd ''status'') = Inl err
   \<Longrightarrow> updateInvoice e i fd w = (Thrown err, w)"
  by (simp add: updateInvoice_def UpdateInvoice_parse_def)

lemma createInvoice_stored:
  assumes "schema_parse (finite_only e) (get fd ''customerId'') (get fd ''amount'') (get fd ''status'')
             = Inr (c, a, s)"
      and "store_fault e (INSERT c (js_mul a (Fin 100)) s (split_T_first (toISOString (now e))))
             (invoices w) = None"
  shows "createInvoice e fd w =
           (Redirected ''/dashboard/invoices'',
            \<lparr>invoices = invoices w @
               [\<lparr>invoice_id = fresh_id e (invoices w), customer_id = c,
                 amount = js_mul a (Fin 100), status = s,
                 date = split_T_first (toISOString (now e))\<rparr>],
             events = events w @
               [Sql (INSERT c (js_mul a (Fin 100)) s (split_T_first (toISOString (now e)))),
                RevalidatePath ''/dashboard/invoices'', Redirect ''/dashboard/invoices'']\<rparr>)"
  using assms
  by (simp add: createInvoice_def CreateInvoice_parse_def sql_def revalidatePath_def
      redirect_def Let_def)

lemma createInvoice_fault:
  assumes "schema_parse (finite_only e) (get fd ''customerId'') (get fd ''amount'') (get fd ''status'')
             = Inr (c, a, s)"
      and "store_fault e (INSERT c (js_mul a (Fin 100)) s (split_T_first (toISOString (now e))))
             (invoices w) = Some msg"
  shows "createInvoice e fd w =
           (Redirected ''/dashboard/invoices'',
            \<lparr>invoices = invoices w,
             events = events w @
               [Sql (INSERT c (js_mul a (Fin 100)) s (split_T_first (toISOString (now e)))),
                ConsoleError (PersistenceError msg),
                RevalidatePath ''/dashboard/invoices'', Redirect ''/dashboard/invoices'']\<rparr>)"
  using assms
  by (simp add: createInvoice_def CreateInvoice_parse_def sql_def revalidatePath_def
      redirect_def console_error_def Let_def)

lemma updateInvoice_stored:
  assumes "schema_parse (finite_only e) (get fd ''customerId'') (get fd ''amount'') (get fd ''status'')
             = Inr (c, a, s)"
      and "store_fault e (UPDATE c (js_mul a (Fin 100)) s i) (invoices w) = None"
  shows "updateInvoice e i fd w =
           (Redirected ''/dashboard/invoices'',
            \<lparr>invoices = map (\<lambda>r. if invoice_id r = i
                                 then r\<lparr>customer_id := c, amount := js_mul a (Fin 100), status := s\<rparr>
                                 else r) (invoices w),
             events = events w @
               [Sql (UPDATE c (js_mul a (Fin 100)) s i),
                RevalidatePath ''/dashboard/invoices'', Redirect ''/dashboard/invoices'']\<rparr>)"
  using assms
  by (simp add: updateInvoice_def UpdateInvoice_parse_def sql_def revalidatePath_def
      redirect_def Let_def)

lemma updateInvoice_fault:
  assumes "schema_parse (finite_only e) (get fd ''customerId'') (get fd ''amount'') (get fd ''status'')
             = Inr (c, a, s)"
      and "store_fault e (UPDATE c (js_mul a (Fin 100)) s i) (invoices w) = Some msg"
  shows "updateInvoice e i fd w =
           (Redirected ''/dashboard/invoices'',
            \<lparr>invoices = invoices w,
             events = events w @
               [Sql (UPDATE c (js_mul a (Fin 100)) s i),
                ConsoleError (PersistenceError msg),
                RevalidatePath ''/dashboard/invoices'', Redirect ''/dashboard/invoices'']\<rparr>)"
  using assms
  by (simp add: updateInvoice_def UpdateInvoice_parse_def sql_def revalidatePath_def
      redirect_def console_error_def Let_def)

lemma deleteInvoice_done:
  assumes "store_fault e (DELETE i) (invoices w) = None"
  shows "deleteInvoice e i w =
           (Returned,
            \<lparr>invoices = filter (\<lambda>r. invoice_id r \<noteq> i) (invoices w),
             events = events w @ [Sql (DELETE i), RevalidatePath ''/dashboard/invoices'']\<rparr>)"
  using assms by (simp add: deleteInvoice_def sql_def revalidatePath_def Let_def)

lemma deleteInvoice_fault:
  assumes "store_fault e (DELETE i) (invoices w) = Some msg"
  shows "deleteInvoice e i w =
           (Thrown (PersistenceError msg),
            \<lparr>invoices = invoices w, events = events w @ [Sql (DELETE i)]\<rparr>)"
  using assms by (simp add: deleteInvoice_def sql_def Let_def)

lemma createInvoice_valid:
  assumes "schema_parse (finite_only e) (get fd ''customerId'') (get fd ''amount'') (get fd ''status'')
             = Inr (c, a, s)"
  shows "createInvoice e fd w =
           (Redirected ''/dashboard/invoices'',
            \<lparr>invoices =
               (case store_fault e
                       (INSERT c (js_mul a (Fin 100)) s (split_T_first (toISOString (now e))))
                       (invoices w) of
                  None \<Rightarrow> invoices w @
                    [\<lparr>invoice_id = fresh_id e (invoices w), customer_id = c,
                      amount = js_mul a (Fin 100), status = s,
                      date = split_T_first (toISOString (now e))\<rparr>]
                | Some msg \<Rightarrow> invoices w),
             events = events w @
               [Sql (INSERT c (js_mul a (Fin 100)) s (split_T_first (toISOString (now e))))] @
               (case store_fault e
                       (INSERT c (js_mul a (Fin 100)) s (split_T_first (toISOString (now e))))
                       (invoices w) of
                  None \<Rightarrow> []
                | Some msg \<Rightarrow> [ConsoleError (PersistenceError msg)]) @
               [RevalidatePath ''/dashboard/invoices'', Redirect ''/dashboard/invoices'']\<rparr>)"
proof (cases "store_fault e
                (INSERT c (js_mul a (Fin 100)) s (split_T_first (toISOString (now e))))
                (invoices w)")
  case None
  with assms show ?thesis by (simp add: createInvoice_stored)
next
  case (Some msg)
  with assms show ?thesis by (simp add: createInvoice_fault)
qed

lemma updateInvoice_valid:
  assumes "schema_parse (finite_only e) (get fd ''customerId'') (get fd ''amount'') (get fd ''status'')
             = Inr (c, a, s)"
  shows "updateInvoice e i fd w =
           (Redirected ''/dashboard/invoices'',
            \<lparr>invoices =
               (case store_fault e (UPDATE c (js_mul a (Fin 100)) s i) (invoices w) of
                  None \<Rightarrow>
                    map (\<lambda>r. if invoice_id r = i
                             then r\<lparr>customer_id := c, amount := js_mul a (Fin 100), status := s\<rparr>
                             else r) (invoices w)
                | Some msg \<Rightarrow> invoices w),
             events = events w @
               [Sql (UPDATE c (js_mul a (Fin 100)) s i)] @
               (case store_fault e (UPDATE c (js_mul a (Fin 100)) s i) (invoices w) of
                  None \<Rightarrow> []
                | Some msg \<Rightarrow> [ConsoleError (PersistenceError msg)]) @
               [RevalidatePath ''/dashboard/invoices'', Redirect ''/dashboard/invoices'']\<rparr>)"
proof (cases "store_fault e (UPDATE c (js_mul a (Fin 100)) s i) (invoices w)")
  case None
  with assms show ?thesis by (simp add: updateInvoice_stored)
next
  case (Some msg)
  with assms show ?thesis by (simp add: updateInvoice_fault)
qed

lemma createInvoice_thrown_iff:
  "(createInvoice e fd w = (Thrown (ZodError names), w')) =
     (w' = w \<and> names \<noteq> [] \<and>
      names = issues (finite_only e) (get fd ''customerId'') (get fd ''amount'') (get fd ''status''))"
proof (cases "schema_parse (finite_only e) (get fd ''customerId'') (get fd ''amount'')
                (get fd ''status'')")
  case (Inl err)
  then show ?thesis
    by (auto simp: createInvoice_invalid schema_parse_Inl_iff)
next
  case (Inr p)
  obtain c a s where "p = (c, a, s)" by (cases p)
  with Inr have ok: "schema_parse (finite_only e) (get fd ''customerId'') (get fd ''amount'')
                (get fd ''status'') = Inr (c, a, s)" by simp
  then have "issues (finite_only e) (get fd ''customerId'') (get fd ''amount'') (get fd ''status'') = []"
    by (auto simp: schema_parse_Inr_iff issues_def)
  with createInvoice_valid [OF ok, of w] show ?thesis by auto
qed

lemma updateInvoice_thrown_iff:
  "(updateInvoice e i fd w = (Thrown (ZodError names), w')) =
     (w' = w \<and> names \<noteq> [] \<and>
      names = issues (finite_only e) (get fd ''customerId'') (get fd ''amount'') (get fd ''status''))"
proof (cases "schema_parse (finite_only e) (get fd ''customerId'') (get fd ''amount'')
                (get fd ''status'')")
  case (Inl err)
  then show ?thesis
    by (auto simp: updateInvoice_invalid schema_parse_Inl_iff)
next
  case (Inr p)
  obtain c a s where "p = (c, a, s)" by (cases p)
  with Inr have ok: "schema_parse (finite_only e) (get fd ''customerId'') (get fd ''amount'')
                (get fd ''status'') = Inr (c, a, s)" by simp
  then have "issues (finite_only e) (get fd ''customerId'') (get fd ''amount'') (get fd ''status'') = []"
    by (auto simp: schema_parse_Inr_iff issues_def)
  with updateInvoice_valid [OF ok, of i w] show ?thesis by auto
qed

lemma updateInvoice_rows:
  "invoices (snd (updateInvoice e i fd w)) = invoices w \<or>
   (\<exists>c a s. schema_parse (finite_only e) (get fd ''customerId'') (get fd ''amount'')
              (get fd ''status'') = Inr (c, a, s) \<and>
            store_fault e (UPDATE c (js_mul a (Fin 100)) s i) (invoices w) = None \<and>
            invoices (snd (updateInvoice e i fd w)) =
              map (\<lambda>r. if invoice_id r = i
                       then r\<lparr>customer_id := c, amount := js_mul a (Fin 100), status := s\<rparr>
                       else r) (invoices w))"
proof (cases "schema_parse (finite_only e) (get fd ''customerId'') (get fd ''amount'')
                (get fd ''status'')")
  case (Inl err)
  then show ?thesis by (simp add: updateInvoice_invalid)
next
  case (Inr p)
  obtain c a s where p: "p = (c, a, s)" by (cases p)
  show ?thesis
  proof (cases "store_fault e (UPDATE c (js_mul a (Fin 100)) s i) (invoices w)")
    case None
    with Inr p show ?thesis by (simp add: updateInvoice_stored)
  next
    case (Some msg)
    with Inr p show ?thesis by (simp add: updateInvoice_fault)
  qed
qed

lemma run_update_others:
  "filter (\<lambda>r. invoice_id r \<noteq> i)
     (map (\<lambda>r. if invoice_id r = i
              then r\<lparr>customer_id := c, amount := a, status := s\<rparr>
              else r) rows) =
   filter (\<lambda>r. invoice_id r \<noteq> i) rows"
  by (induction rows) simp_all

lemma get_other: "k \<noteq> name \<Longrightarrow> get ((k, v) # fd) name = get fd name"
  by (simp add: get_def)

lemma createInvoice_reads_three:
  assumes "get fd' ''customerId'' = get fd ''customerId''"
      and "get fd' ''amount'' = get fd ''amount''"
      and "get fd' ''status'' = get fd ''status''"
  shows "createInvoice e fd' w = createInvoice e fd w"
  using assms by (simp add: createInvoice_def)

text \<open>
  The two snapshots of \<^verbatim>\<open>createInvoice\<close> differ only when the store raises: the earlier one
  then throws the store's error, the later one logs it and goes on.
\<close>

lemma createInvoice_earlier_eq:
  "createInvoice_earlier e fd w =
     (case CreateInvoice_parse (finite_only e)
             (get fd ''customerId'') (get fd ''amount'') (get fd ''status'') of
        Inl err \<Rightarrow> createInvoice e fd w
      | Inr (c, a, s) \<Rightarrow>
          (case store_fault e
                  (INSERT c (js_mul a (Fin 100)) s (split_T_first (toISOString (now e))))
                  (invoices w) of
             None \<Rightarrow> createInvoice e fd w
           | Some msg \<Rightarrow>
               (Thrown (PersistenceError msg),
                \<lparr>invoices = invoices w,
                 events = events w @
                   [Sql (INSERT c (js_mul a (Fin 100)) s
                          (split_T_first (toISOString (now e))))]\<rparr>)))"
  by (simp add: createInvoice_earlier_def createInvoice_def sql_def revalidatePath_def
      redirect_def Let_def split: sum.splits option.splits)

subsection \<open>Integers that are doubles\<close>

lemma rnd_even_whole: "rnd_even n 1 = n"
  by (simp add: rnd_even_def)

lemma round_frac_whole:
  assumes "0 < k" and "k < 2 ^ 53"
  shows "round_frac k 1 = Some (k * 2 ^ nat (53 - bitlen k), bitlen k - 53)"
proof -
  have b1: "bitlen 1 = 1"
    by (subst compute_bitlen) simp
  from assms(1) have lo: "2 ^ nat (bitlen k - 1) \<le> k"
    using bitlen_bounds [of k] by simp
  from assms(1) have pos: "1 \<le> bitlen k"
    using bitlen_eq_zero_iff [of k] bitlen_nonneg [of k] by linarith
  from assms(2) have hi: "bitlen k \<le> 53"
    using bitlen_le_iff_power [of k 53] by simp
  from pos lo have il: "ilog2 k 1 = bitlen k - 1"
    by (simp add: ilog2_def b1)
  from pos hi have e: "max (ilog2 k 1 - 52) (- 1074) = bitlen k - 53"
    by (simp add: il)
  from hi have z: "nat (bitlen k - 53) = 0" and n: "nat (- (bitlen k - 53)) = nat (53 - bitlen k)"
    by simp_all
  from hi show ?thesis
    by (simp add: round_frac_def e z n rnd_even_whole)
qed

lemma pow2_cancel:
  assumes "b \<le> 53"
  shows "of_int (k * 2 ^ nat (53 - b)) * pow2 (b - 53) = (of_int k :: rat)"
proof (cases "b = 53")
  case True
  then show ?thesis by (simp add: pow2_def)
next
  case False
  with assms have "b - 53 < 0" by simp
  then have "pow2 (b - 53) = 1 / 2 ^ nat (53 - b)"
    by (simp add: pow2_def)
  then show ?thesis by simp
qed

lemma round_double_of_int:
  assumes "\<bar>k\<bar> < 2 ^ 53"
  shows "round_double (of_int k) = Fin (of_int k)"
proof (cases "k = 0")
  case True
  then show ?thesis by (simp add: round_double_def)
next
  case False
  then have "0 < \<bar>k\<bar>" by simp
  from round_frac_whole [OF this assms]
  have rf: "round_frac \<bar>k\<bar> 1 = Some (\<bar>k\<bar> * 2 ^ nat (53 - bitlen \<bar>k\<bar>), bitlen \<bar>k\<bar> - 53)" .
  from assms have hi: "bitlen \<bar>k\<bar> \<le> 53"
    using bitlen_le_iff_power [of "\<bar>k\<bar>" 53] by simp
  have "sgn (of_int k :: rat) * of_int (\<bar>k\<bar> * 2 ^ nat (53 - bitlen \<bar>k\<bar>)) * pow2 (bitlen \<bar>k\<bar> - 53)
          = sgn (of_int k) * (of_int (\<bar>k\<bar> * 2 ^ nat (53 - bitlen \<bar>k\<bar>)) * pow2 (bitlen \<bar>k\<bar> - 53))"
    by (simp only: mult.assoc)
  also have "\<dots> = sgn (of_int k) * of_int \<bar>k\<bar>"
    by (simp only: pow2_cancel [OF hi])
  also have "\<dots> = of_int k"
    by (simp add: sgn_if)
  finally have v: "sgn (of_int k :: rat) * of_int (\<bar>k\<bar> * 2 ^ nat (53 - bitlen \<bar>k\<bar>)) *
      pow2 (bitlen \<bar>k\<bar> - 53) = of_int k" .
  from False have "round_double (of_int k) =
      Fin (sgn (of_int k) * of_int (\<bar>k\<bar> * 2 ^ nat (53 - bitlen \<bar>k\<bar>)) * pow2 (bitlen \<bar>k\<bar> - 53))"
    by (simp add: round_double_def rf)
  with v show ?thesis by simp
qed

lemma cents_exact:
  assumes "x * 100 = of_int k" and "\<bar>k\<bar> < 2 ^ 53"
  shows "js_mul (Fin x) (Fin 100) = Fin (of_int k)"
  using assms by (simp add: js_mul.simps round_double_of_int)

lemma Math_round_eq_iff:
  "(p = Math_round p) = (case p of Fin r \<Rightarrow> r \<in> \<int> | _ \<Rightarrow> True)"
proof (cases p)
  case (Fin r)
  have "(r = of_int (round r)) = (r \<in> \<int>)"
  proof
    assume "r = of_int (round r)"
    then show "r \<in> \<int>" by (metis Ints_of_int)
  next
    assume "r \<in> \<int>"
    then obtain k where "r = of_int k" by (auto elim: Ints_cases)
    then show "r = of_int (round r)" by simp
  qed
  with Fin show ?thesis by (simp add: Math_round_def)
qed (simp_all add: Math_round_def)

subsection \<open>The date part of the ISO string\<close>

lemma digit_char_digit: "digit_char d \<in> set ''0123456789''"
proof -
  have "d mod 10 < length ''0123456789''" by simp
  then have "''0123456789'' ! (d mod 10) \<in> set ''0123456789''" by (rule nth_mem)
  then show ?thesis by (simp only: digit_char_def)
qed

lemma dec_digits: "set (dec n) \<subseteq> set ''0123456789''"
proof (induction n rule: dec.induct)
  case (1 n)
  show ?case
  proof (cases "n < 10")
    case True
    then have "dec n = [digit_char n]" by (subst dec.simps) simp
    then show ?thesis using digit_char_digit [of n] by simp
  next
    case False
    then have "dec n = dec (n div 10) @ [digit_char n]" by (subst dec.simps) simp
    then show ?thesis using 1 False digit_char_digit [of n] by simp
  qed
qed

lemma pad_digits: "set (pad k n) \<subseteq> set ''0123456789''"
  using dec_digits [of n] by (auto simp: pad_def)

lemma year_string_no_T: "CHR ''T'' \<notin> set (year_string y)"
  using pad_digits [of 4 "nat y"] pad_digits [of 6 "nat \<bar>y\<bar>"]
  by (auto simp: year_string_def)

lemma pad_no_T: "CHR ''T'' \<notin> set (pad k n)"
  using pad_digits [of k n] by auto

lemma takeWhile_stop:
  "\<forall>c \<in> set xs. c \<noteq> x \<Longrightarrow> takeWhile (\<lambda>c. c \<noteq> x) (xs @ x # ys) = xs"
  by (induction xs) simp_all

lemma date_part:
  "split_T_first (toISOString t) =
     year_string (year t) @ ''-'' @ pad 2 (month t) @ ''-'' @ pad 2 (day t)"
proof -
  let ?d = "year_string (year t) @ ''-'' @ pad 2 (month t) @ ''-'' @ pad 2 (day t)"
  have noT: "\<forall>c \<in> set ?d. c \<noteq> CHR ''T''"
    using year_string_no_T [of "year t"] pad_no_T [of 2 "month t"] pad_no_T [of 2 "day t"]
    by auto
  have "toISOString t = ?d @ CHR ''T'' # (pad 2 (hours t) @ '':'' @ pad 2 (minutes t) @ '':'' @
          pad 2 (seconds t) @ ''.'' @ pad 3 (millis t) @ ''Z'')"
    by (simp add: toISOString_def)
  then have "split_T_first (toISOString t) = takeWhile (\<lambda>c. c \<noteq> CHR ''T'') (?d @ CHR ''T'' #
          (pad 2 (hours t) @ '':'' @ pad 2 (minutes t) @ '':'' @
          pad 2 (seconds t) @ ''.'' @ pad 3 (millis t) @ ''Z''))"
    by (simp only: split_T_first_def)
  also have "\<dots> = ?d"
    using noT by (rule takeWhile_stop)
  finally show ?thesis .
qed

lemma length_dec_1: "n < 10 \<Longrightarrow> length (dec n) = 1"
  by (subst dec.simps) simp

lemma length_dec_step: "\<not> n < 10 \<Longrightarrow> length (dec n) = Suc (length (dec (n div 10)))"
  by (subst dec.simps) simp

lemma length_dec_2: "n < 100 \<Longrightarrow> length (dec n) \<le> 2"
proof (cases "n < 10")
  case True
  then show ?thesis by (simp add: length_dec_1)
next
  case False
  assume "n < 100"
  then have "n div 10 < 10" by simp
  with False show ?thesis by (simp add: length_dec_step length_dec_1)
qed

lemma length_dec_3: "n < 1000 \<Longrightarrow> length (dec n) \<le> 3"
proof (cases "n < 10")
  case True
  then show ?thesis by (simp add: length_dec_1)
next
  case False
  assume "n < 1000"
  then have "n div 10 < 100" by simp
  then have "length (dec (n div 10)) \<le> 2" by (rule length_dec_2)
  with False show ?thesis by (simp add: length_dec_step)
qed

lemma length_dec_4: "n < 10000 \<Longrightarrow> length (dec n) \<le> 4"
proof (cases "n < 10")
  case True
  then show ?thesis by (simp add: length_dec_1)
next
  case False
  assume "n < 10000"
  then have "n div 10 < 1000" by simp
  then have "length (dec (n div 10)) \<le> 3" by (rule length_dec_3)
  with False show ?thesis by (simp add: length_dec_step)
qed

lemma length_pad: "length (dec n) \<le> k \<Longrightarrow> length (pad k n) = k"
  by (simp add: pad_def)

subsection \<open>Values at the example inputs\<close>

lemma Number_50: "StringToNumber ''50'' = Fin 50" by code_simp

lemma Number_12_50: "StringToNumber ''12.50'' = Fin (25 / 2)" by code_simp

lemma Number_10_5: "StringToNumber ''10.5'' = Fin (21 / 2)" by code_simp

lemma Number_eighth: "StringToNumber ''0.125'' = Fin (1 / 8)" by code_simp

lemma Number_1_1: "StringToNumber ''1.1'' = Fin (2476979795053773 / 2251799813685248)" by code_simp

lemma Number_empty: "StringToNumber '''' = Fin 0" by code_simp

lemma cents_50: "js_mul (Fin 50) (Fin 100) = Fin 5000" by code_simp

lemma cents_12_50: "js_mul (Fin (25 / 2)) (Fin 100) = Fin 1250" by code_simp

lemma cents_10_5: "js_mul (Fin (21 / 2)) (Fin 100) = Fin 1050" by code_simp

lemma cents_eighth: "js_mul (Fin (1 / 8)) (Fin 100) = Fin (25 / 2)" by code_simp

lemma cents_1_1: "js_mul (Fin (2476979795053773 / 2251799813685248)) (Fin 100) = Fin (7740561859543041 / 70368744177664)" by code_simp

lemma cents_0: "js_mul (Fin 0) (Fin 100) = Fin 0" by (simp add: js_mul.simps round_double_def)

lemma get_form:
  "get (form c a s) ''customerId'' = Str c"
  "get (form c a s) ''amount'' = Str a"
  "get (form c a s) ''status'' = Str s"
  by (simp_all add: get_def form_def)

lemma today_clock: "split_T_first (toISOString clock) = ''2026-11-03''"
  by (simp add: split_T_first_def toISOString_def year_string_def pad_def digit_char_def
      clock_def dec.simps)

lemma next_id_examples: "next_id [] = ''inv1''" "next_id [r] = ''inv2''"
  by (simp_all add: next_id_def dec.simps digit_char_def)

lemma Math_round_examples: 
  "Math_round (Fin (25 / 2)) = Fin 13"
  "Math_round (Fin (7740561859543041 / 70368744177664)) = Fin 110"
  by code_simp+

lemma spec_eighth: "spec_persisted_amount (Fin (1 / 8)) = Fin 13"
  by (simp add: spec_persisted_amount_def cents_eighth Math_round_examples)

text \<open>
  An amount with two decimals need not give an integer either: \<^verbatim>\<open>1.1\<close> is the double
  \<open>2476979795053773 / 2^51\<close>, and its product with \<open>100\<close> rounds to the double just
  above \<open>110\<close>, printed \<^verbatim>\<open>110.00000000000001\<close>.
\<close>

lemma cents_1_1_not_integer:
  "js_mul (StringToNumber ''1.1'') (Fin 100) = Fin (110 + 1 / 2 ^ 46)"
  "spec_persisted_amount (StringToNumber ''1.1'') = Fin 110"
  "js_mul (StringToNumber ''1.1'') (Fin 100) \<noteq> spec_persisted_amount (StringToNumber ''1.1'')"
  by code_simp+

lemma parse_c1_50_pending:
  "schema_parse fin (Str ''c1'') (Str ''50'') (Str ''pending'') = Inr (''c1'', Fin 50, ''pending'')"
  by (simp add: schema_parse_Inr_iff z_string_def z_coerce_number_def z_enum_def Number_50)

lemma parse_c1_12_50_pending:
  "schema_parse fin (Str ''c1'') (Str ''12.50'') (Str ''pending'') = Inr (''c1'', Fin (25 / 2), ''pending'')"
  by (simp add: schema_parse_Inr_iff z_string_def z_coerce_number_def z_enum_def Number_12_50)

lemma parse_c1_eighth_pending:
  "schema_parse fin (Str ''c1'') (Str ''0.125'') (Str ''pending'') = Inr (''c1'', Fin (1 / 8), ''pending'')"
  by (simp add: schema_parse_Inr_iff z_string_def z_coerce_number_def z_enum_def Number_eighth)

lemma parse_c2_10_5_paid:
  "schema_parse fin (Str ''c2'') (Str ''10.5'') (Str ''paid'') = Inr (''c2'', Fin (21 / 2), ''paid'')"
  by (simp add: schema_parse_Inr_iff z_string_def z_coerce_number_def z_enum_def Number_10_5)

lemma parse_empty_50_pending:
  "schema_parse fin (Str '''') (Str ''50'') (Str ''pending'') = Inr ('''', Fin 50, ''pending'')"
  by (simp add: schema_parse_Inr_iff z_string_def z_coerce_number_def z_enum_def Number_50)

section \<open>The claims of the specification\<close>

subsection \<open>The amount that is stored\<close>

text \<open>
  Claim C1, as amended. Let the form be valid, with \<open>a\<close> the Number its \<^verbatim>\<open>amount\<close> field
  coerces to. Then the amount that \<^verbatim>\<open>createInvoice\<close> and \<^verbatim>\<open>updateInvoice\<close> put in their
  statement, and that the row holds when the store accepts the statement, is the double
  product \<open>a * 100\<close>; it is not rounded to an integer. It agrees with the specification's
  \<open>round (a * 100)\<close> exactly when the product is an integer (or infinite). That is the
  case whenever \<open>a * 100\<close>, computed exactly, is an integer of magnitude below \<open>2^53\<close>:
  then that integer is stored, as for \<^verbatim>\<open>12.50\<close> and \<open>1250\<close>.
\<close>

theorem persisted_amount_is_product:
  assumes "schema_parse (finite_only e) (get fd ''customerId'') (get fd ''amount'')
             (get fd ''status'') = Inr (c, a, s)"
  shows "a = Number (get fd ''amount'') \<and>
     createInvoice e fd w =
       (Redirected ''/dashboard/invoices'',
        \<lparr>invoices =
           (case store_fault e
                   (INSERT c (js_mul a (Fin 100)) s (split_T_first (toISOString (now e))))
                   (invoices w) of
              None \<Rightarrow> invoices w @
                [\<lparr>invoice_id = fresh_id e (invoices w), customer_id = c,
                  amount = js_mul a (Fin 100), status = s,
                  date = split_T_first (toISOString (now e))\<rparr>]
            | Some msg \<Rightarrow> invoices w),
         events = events w @
           [Sql (INSERT c (js_mul a (Fin 100)) s (split_T_first (toISOString (now e))))] @
           (case store_fault e
                   (INSERT c (js_mul a (Fin 100)) s (split_T_first (toISOString (now e))))
                   (invoices w) of
              None \<Rightarrow> []
            | Some msg \<Rightarrow> [ConsoleError (PersistenceError msg)]) @
           [RevalidatePath ''/dashboard/invoices'', Redirect ''/dashboard/invoices'']\<rparr>) \<and>
     updateInvoice e i fd w =
       (Redirected ''/dashboard/invoices'',
        \<lparr>invoices =
           (case store_fault e (UPDATE c (js_mul a (Fin 100)) s i) (invoices w) of
              None \<Rightarrow>
                map (\<lambda>r. if invoice_id r = i
                         then r\<lparr>customer_id := c, amount := js_mul a (Fin 100), status := s\<rparr>
                         else r) (invoices w)
            | Some msg \<Rightarrow> invoices w),
         events = events w @
           [Sql (UPDATE c (js_mul a (Fin 100)) s i)] @
           (case store_fault e (UPDATE c (js_mul a (Fin 100)) s i) (invoices w) of
              None \<Rightarrow> []
            | Some msg \<Rightarrow> [ConsoleError (PersistenceError msg)]) @
           [RevalidatePath ''/dashboard/invoices'', Redirect ''/dashboard/invoices'']\<rparr>) \<and>
     (js_mul a (Fin 100) = spec_persisted_amount a) =
       (case js_mul a (Fin 100) of Fin r \<Rightarrow> r \<in> \<int> | _ \<Rightarrow> True) \<and>
     (\<forall>x k. a = Fin x \<and> x * 100 = of_int k \<and> \<bar>k\<bar> < 2 ^ 53 \<longrightarrow>
        js_mul a (Fin 100) = Fin (of_int k) \<and> spec_persisted_amount a = Fin (of_int k))"
proof (intro conjI allI impI)
  from assms have "z_coerce_number (finite_only e) (get fd ''amount'') = Some a"
    by (simp add: schema_parse_Inr_iff)
  then show "a = Number (get fd ''amount'')"
    by (simp add: coerce_number_neq_NaN)
next
  show "(js_mul a (Fin 100) = spec_persisted_amount a) =
       (case js_mul a (Fin 100) of Fin r \<Rightarrow> r \<in> \<int> | _ \<Rightarrow> True)"
    unfolding spec_persisted_amount_def by (rule Math_round_eq_iff)
next
  fix x k
  assume h: "a = Fin x \<and> x * 100 = of_int k \<and> \<bar>k\<bar> < 2 ^ 53"
  then show p: "js_mul a (Fin 100) = Fin (of_int k)"
    by (simp add: cents_exact)
  then show "spec_persisted_amount a = Fin (of_int k)"
    by (simp add: spec_persisted_amount_def Math_round_def)
qed (rule createInvoice_valid [OF assms] updateInvoice_valid [OF assms])+

theorem persisted_amount_is_product_witness:
  "createInvoice env_up (form ''c1'' ''12.50'' ''pending'') no_rows =
     (Redirected ''/dashboard/invoices'',
      \<lparr>invoices =
         [\<lparr>invoice_id = ''inv1'', customer_id = ''c1'', amount = Fin 1250, status = ''pending'',
           date = ''2026-11-03''\<rparr>],
       events =
         [Sql (INSERT ''c1'' (Fin 1250) ''pending'' ''2026-11-03''),
          RevalidatePath ''/dashboard/invoices'', Redirect ''/dashboard/invoices'']\<rparr>) \<and>
   updateInvoice env_up ''inv1'' (form ''c1'' ''12.50'' ''pending'') one_row =
     (Redirected ''/dashboard/invoices'',
      \<lparr>invoices =
         [\<lparr>invoice_id = ''inv1'', customer_id = ''c1'', amount = Fin 1250, status = ''pending'',
           date = ''2026-10-31''\<rparr>],
       events =
         [Sql (UPDATE ''c1'' (Fin 1250) ''pending'' ''inv1''),
          RevalidatePath ''/dashboard/invoices'', Redirect ''/dashboard/invoices'']\<rparr>) \<and>
   spec_persisted_amount (Fin (25 / 2)) = Fin 1250"
proof -
  have p: "schema_parse (finite_only env_up) (get (form ''c1'' ''12.50'' ''pending'') ''customerId'')
          (get (form ''c1'' ''12.50'' ''pending'') ''amount'')
          (get (form ''c1'' ''12.50'' ''pending'') ''status'') = Inr (''c1'', Fin (25 / 2), ''pending'')"
    by (simp add: get_form parse_c1_12_50_pending)
  from persisted_amount_is_product [OF p, of no_rows "''inv1''"]
  have "createInvoice env_up (form ''c1'' ''12.50'' ''pending'') no_rows =
     (Redirected ''/dashboard/invoices'',
      \<lparr>invoices =
         [\<lparr>invoice_id = ''inv1'', customer_id = ''c1'', amount = Fin 1250, status = ''pending'',
           date = ''2026-11-03''\<rparr>],
       events =
         [Sql (INSERT ''c1'' (Fin 1250) ''pending'' ''2026-11-03''),
          RevalidatePath ''/dashboard/invoices'', Redirect ''/dashboard/invoices'']\<rparr>)"
    by (simp add: env_up_def no_rows_def no_fault_def cents_12_50 today_clock next_id_examples)
  moreover from persisted_amount_is_product [OF p, of one_row "''inv1''"]
  have "updateInvoice env_up ''inv1'' (form ''c1'' ''12.50'' ''pending'') one_row =
     (Redirected ''/dashboard/invoices'',
      \<lparr>invoices =
         [\<lparr>invoice_id = ''inv1'', customer_id = ''c1'', amount = Fin 1250, status = ''pending'',
           date = ''2026-10-31''\<rparr>],
       events =
         [Sql (UPDATE ''c1'' (Fin 1250) ''pending'' ''inv1''),
          RevalidatePath ''/dashboard/invoices'', Redirect ''/dashboard/invoices'']\<rparr>)"
    by (simp add: env_up_def one_row_def inv1_def no_fault_def cents_12_50)
  moreover from persisted_amount_is_product
    [OF p, of no_rows "''inv1''", THEN conjunct2, THEN conjunct2, THEN conjunct2, THEN conjunct2,
     THEN spec, of "25 / 2", THEN spec, of 1250]
  have "spec_persisted_amount (Fin (25 / 2)) = Fin 1250"
    by simp
  ultimately show ?thesis by simp
qed

text \<open>
  The claim as first stated fails at the amount \<^verbatim>\<open>0.125\<close>, which is a double: both actions
  send and store \<open>12.5\<close>, where the specification's rule gives \<open>13\<close>.
\<close>

theorem persisted_amount_not_rounded:
  "createInvoice env_up (form ''c1'' ''0.125'' ''pending'') no_rows =
     (Redirected ''/dashboard/invoices'',
      \<lparr>invoices =
         [\<lparr>invoice_id = ''inv1'', customer_id = ''c1'', amount = Fin (25 / 2),
           status = ''pending'', date = ''2026-11-03''\<rparr>],
       events =
         [Sql (INSERT ''c1'' (Fin (25 / 2)) ''pending'' ''2026-11-03''),
          RevalidatePath ''/dashboard/invoices'', Redirect ''/dashboard/invoices'']\<rparr>) \<and>
   updateInvoice env_up ''inv1'' (form ''c1'' ''0.125'' ''pending'') one_row =
     (Redirected ''/dashboard/invoices'',
      \<lparr>invoices =
         [\<lparr>invoice_id = ''inv1'', customer_id = ''c1'', amount = Fin (25 / 2),
           status = ''pending'', date = ''2026-10-31''\<rparr>],
       events =
         [Sql (UPDATE ''c1'' (Fin (25 / 2)) ''pending'' ''inv1''),
          RevalidatePath ''/dashboard/invoices'', Redirect ''/dashboard/invoices'']\<rparr>) \<and>
   Number (Str ''0.125'') = Fin (1 / 8) \<and>
   spec_persisted_amount (Fin (1 / 8)) = Fin 13 \<and>
   Fin (25 / 2) \<noteq> spec_persisted_amount (Fin (1 / 8))"
proof -
  have p: "schema_parse (finite_only env_up) (get (form ''c1'' ''0.125'' ''pending'') ''customerId'')
          (get (form ''c1'' ''0.125'' ''pending'') ''amount'')
          (get (form ''c1'' ''0.125'' ''pending'') ''status'') = Inr (''c1'', Fin (1 / 8), ''pending'')"
    by (simp add: get_form parse_c1_eighth_pending)
  have "createInvoice env_up (form ''c1'' ''0.125'' ''pending'') no_rows =
     (Redirected ''/dashboard/invoices'',
      \<lparr>invoices =
         [\<lparr>invoice_id = ''inv1'', customer_id = ''c1'', amount = Fin (25 / 2),
           status = ''pending'', date = ''2026-11-03''\<rparr>],
       events =
         [Sql (INSERT ''c1'' (Fin (25 / 2)) ''pending'' ''2026-11-03''),
          RevalidatePath ''/dashboard/invoices'', Redirect ''/dashboard/invoices'']\<rparr>)"
    using createInvoice_valid [OF p, of no_rows]
    by (simp add: env_up_def no_rows_def no_fault_def cents_eighth today_clock next_id_examples)
  moreover have "updateInvoice env_up ''inv1'' (form ''c1'' ''0.125'' ''pending'') one_row =
     (Redirected ''/dashboard/invoices'',
      \<lparr>invoices =
         [\<lparr>invoice_id = ''inv1'', customer_id = ''c1'', amount = Fin (25 / 2),
           status = ''pending'', date = ''2026-10-31''\<rparr>],
       events =
         [Sql (UPDATE ''c1'' (Fin (25 / 2)) ''pending'' ''inv1''),
          RevalidatePath ''/dashboard/invoices'', Redirect ''/dashboard/invoices'']\<rparr>)"
    using updateInvoice_valid [OF p, of "''inv1''" one_row]
    by (simp add: env_up_def one_row_def inv1_def no_fault_def cents_eighth)
  ultimately show ?thesis
    by (simp add: Number_eighth spec_eighth)
qed

subsection \<open>When the store raises\<close>

text \<open>
  Claim C2. Let the form be valid and let the store raise on the statement the action sends.
  Then \<^verbatim>\<open>createInvoice\<close> and \<^verbatim>\<open>updateInvoice\<close> send the statement, log the error with
  \<^verbatim>\<open>console.error\<close>, revalidate \<^verbatim>\<open>/dashboard/invoices\<close> and end in the redirect to that path: the
  outcome is \<open>Redirected\<close>, not \<open>Thrown\<close>, and the table is as before. \<^verbatim>\<open>deleteInvoice\<close> has
  no handler around its query: when the store raises on the delete, the action ends in
  \<open>Thrown\<close> with the store's error, right after the query, and revalidates nothing.
\<close>

theorem store_failure_policy:
  "(schema_parse (finite_only e) (get fd ''customerId'') (get fd ''amount'') (get fd ''status'')
      = Inr (c, a, s) \<and>
    store_fault e (INSERT c (js_mul a (Fin 100)) s (split_T_first (toISOString (now e))))
      (invoices w) = Some msg \<longrightarrow>
    createInvoice e fd w =
      (Redirected ''/dashboard/invoices'',
       \<lparr>invoices = invoices w,
        events = events w @
          [Sql (INSERT c (js_mul a (Fin 100)) s (split_T_first (toISOString (now e)))),
           ConsoleError (PersistenceError msg),
           RevalidatePath ''/dashboard/invoices'', Redirect ''/dashboard/invoices'']\<rparr>)) \<and>
   (schema_parse (finite_only e) (get fd ''customerId'') (get fd ''amount'') (get fd ''status'')
      = Inr (c, a, s) \<and>
    store_fault e (UPDATE c (js_mul a (Fin 100)) s i) (invoices w) = Some msg \<longrightarrow>
    updateInvoice e i fd w =
      (Redirected ''/dashboard/invoices'',
       \<lparr>invoices = invoices w,
        events = events w @
          [Sql (UPDATE c (js_mul a (Fin 100)) s i),
           ConsoleError (PersistenceError msg),
           RevalidatePath ''/dashboard/invoices'', Redirect ''/dashboard/invoices'']\<rparr>)) \<and>
   (store_fault e (DELETE i) (invoices w) = Some msg \<longrightarrow>
    deleteInvoice e i w =
      (Thrown (PersistenceError msg),
       \<lparr>invoices = invoices w, events = events w @ [Sql (DELETE i)]\<rparr>))"
  by (intro conjI impI)
     (simp_all add: createInvoice_fault updateInvoice_fault deleteInvoice_fault)

theorem store_failure_policy_witness:
  "createInvoice env_down (form ''c1'' ''50'' ''pending'') one_row =
     (Redirected ''/dashboard/invoices'',
      \<lparr>invoices = [inv1],
       events = [Sql (INSERT ''c1'' (Fin 5000) ''pending'' ''2026-11-03''),
                 ConsoleError (PersistenceError ''ECONNREFUSED''),
                 RevalidatePath ''/dashboard/invoices'', Redirect ''/dashboard/invoices'']\<rparr>) \<and>
   updateInvoice env_down ''inv1'' (form ''c1'' ''50'' ''pending'') one_row =
     (Redirected ''/dashboard/invoices'',
      \<lparr>invoices = [inv1],
       events = [Sql (UPDATE ''c1'' (Fin 5000) ''pending'' ''inv1''),
                 ConsoleError (PersistenceError ''ECONNREFUSED''),
                 RevalidatePath ''/dashboard/invoices'', Redirect ''/dashboard/invoices'']\<rparr>) \<and>
   deleteInvoice env_down ''inv1'' one_row =
     (Thrown (PersistenceError ''ECONNREFUSED''),
      \<lparr>invoices = [inv1], events = [Sql (DELETE ''inv1'')]\<rparr>)"
  using store_failure_policy [where e = env_down and fd = "form ''c1'' ''50'' ''pending''"
      and w = one_row and i = "''inv1''" and c = "''c1''" and a = "Fin 50" and s = "''pending''"
      and msg = "''ECONNREFUSED''"]
  by (simp add: env_down_def one_row_def get_form parse_c1_50_pending cents_50 today_clock
      connection_lost_def)

subsection \<open>Validation of \<^verbatim>\<open>status\<close>\<close>

text \<open>
  Claim C3. The validator of \<^verbatim>\<open>status\<close> accepts a form value exactly when it is the string
  \<^verbatim>\<open>pending\<close> or the string \<^verbatim>\<open>paid\<close>. When the \<^verbatim>\<open>status\<close> field of the form is anything
  else (another string, a file, or absent), \<^verbatim>\<open>createInvoice\<close> and \<^verbatim>\<open>updateInvoice\<close> throw a
  \<^verbatim>\<open>ZodError\<close> that lists \<^verbatim>\<open>status\<close>, and the world is returned as it was: no statement
  reached the store, nothing was logged, revalidated or redirected.
\<close>

theorem status_validation:
  "(z_enum [''pending'', ''paid''] v \<noteq> None) = (v = Str ''pending'' \<or> v = Str ''paid'') \<and>
   (get fd ''status'' \<noteq> Str ''pending'' \<and> get fd ''status'' \<noteq> Str ''paid'' \<longrightarrow>
      (\<exists>names. ''status'' \<in> set names \<and>
         createInvoice e fd w = (Thrown (ZodError names), w) \<and>
         updateInvoice e i fd w = (Thrown (ZodError names), w)))"
proof (intro conjI impI)
  show "(z_enum [''pending'', ''paid''] v \<noteq> None) = (v = Str ''pending'' \<or> v = Str ''paid'')"
    by (rule z_enum_status)
next
  let ?c = "get fd ''customerId''" and ?a = "get fd ''amount''" and ?s = "get fd ''status''"
  let ?names = "issues (finite_only e) ?c ?a ?s"
  assume "?s \<noteq> Str ''pending'' \<and> ?s \<noteq> Str ''paid''"
  then have bad: "z_enum [''pending'', ''paid''] ?s = None"
    using z_enum_status [of ?s] by simp
  then have mem: "''status'' \<in> set ?names"
    by (simp add: issues_def)
  then have "?names \<noteq> []" by auto
  then have "schema_parse (finite_only e) ?c ?a ?s = Inl (ZodError ?names)"
    by (simp add: schema_parse_Inl_iff)
  then have "createInvoice e fd w = (Thrown (ZodError ?names), w)"
    and "updateInvoice e i fd w = (Thrown (ZodError ?names), w)"
    by (rule createInvoice_invalid, rule updateInvoice_invalid)
  with mem show "\<exists>names. ''status'' \<in> set names \<and>
         createInvoice e fd w = (Thrown (ZodError names), w) \<and>
         updateInvoice e i fd w = (Thrown (ZodError names), w)"
    by blast
qed

theorem status_validation_witness:
  "z_enum [''pending'', ''paid''] (Str ''paid'') \<noteq> None \<and>
   z_enum [''pending'', ''paid''] (Str ''overdue'') = None \<and>
   createInvoice env_up (form ''c1'' ''50'' ''overdue'') one_row = (Thrown (ZodError [''status'']), one_row) \<and>
   updateInvoice env_up ''inv1'' (form ''c1'' ''50'' ''overdue'') one_row
     = (Thrown (ZodError [''status'']), one_row)"
proof -
  have iss: "issues False (Str ''c1'') (Str ''50'') (Str ''overdue'') = [''status'']"
    by (simp add: issues_def z_string_def z_coerce_number_def z_enum_def Number_50)
  have "schema_parse False (Str ''c1'') (Str ''50'') (Str ''overdue'') = Inl (ZodError [''status''])"
    by (simp add: schema_parse_Inl_iff iss)
  then have thrown:
    "createInvoice env_up (form ''c1'' ''50'' ''overdue'') one_row = (Thrown (ZodError [''status'']), one_row)"
    "updateInvoice env_up ''inv1'' (form ''c1'' ''50'' ''overdue'') one_row
       = (Thrown (ZodError [''status'']), one_row)"
    by (simp_all add: createInvoice_invalid updateInvoice_invalid get_form env_up_def)
  from status_validation [where v = "Str ''paid''" and fd = "form ''c1'' ''50'' ''overdue''"
         and e = env_up and w = one_row and i = "''inv1''"]
       status_validation [where v = "Str ''overdue''" and fd = "form ''c1'' ''50'' ''overdue''"
         and e = env_up and w = one_row and i = "''inv1''"]
  show ?thesis using thrown by (simp add: get_form)
qed

subsection \<open>Creating an invoice\<close>

text \<open>
  Claim C4. Let the form carry \<^verbatim>\<open>customerId = "c1"\<close>, \<^verbatim>\<open>amount = "50"\<close> and
  \<^verbatim>\<open>status = "pending"\<close>, and let the store accept the insert. Then after \<^verbatim>\<open>createInvoice\<close>
  the table has one more row, with \<^verbatim>\<open>customer_id\<close> \<open>c1\<close>, \<^verbatim>\<open>amount\<close> \<open>5000\<close>, \<^verbatim>\<open>status\<close>
  \<open>pending\<close> and as \<^verbatim>\<open>date\<close> the date part of the clock's ISO string, which is the
  clock's UTC year, month and day joined by hyphens; and the action's effects are, in this
  order, the insert, the revalidation of \<^verbatim>\<open>/dashboard/invoices\<close> and the redirect to
  \<^verbatim>\<open>/dashboard/invoices\<close>, with which it ends.
\<close>

theorem create_example:
  assumes "get fd ''customerId'' = Str ''c1''"
      and "get fd ''amount'' = Str ''50''"
      and "get fd ''status'' = Str ''pending''"
      and "store_fault e
             (INSERT ''c1'' (Fin 5000) ''pending'' (split_T_first (toISOString (now e))))
             (invoices w) = None"
  shows "createInvoice e fd w =
           (Redirected ''/dashboard/invoices'',
            \<lparr>invoices = invoices w @
               [\<lparr>invoice_id = fresh_id e (invoices w), customer_id = ''c1'',
                 amount = Fin 5000, status = ''pending'',
                 date = split_T_first (toISOString (now e))\<rparr>],
             events = events w @
               [Sql (INSERT ''c1'' (Fin 5000) ''pending'' (split_T_first (toISOString (now e)))),
                RevalidatePath ''/dashboard/invoices'', Redirect ''/dashboard/invoices'']\<rparr>) \<and>
         split_T_first (toISOString (now e)) =
           year_string (year (now e)) @ ''-'' @ pad 2 (month (now e)) @ ''-'' @
           pad 2 (day (now e))"
proof
  have "schema_parse (finite_only e) (get fd ''customerId'') (get fd ''amount'') (get fd ''status'')
          = Inr (''c1'', Fin 50, ''pending'')"
    using assms(1-3) by (simp add: parse_c1_50_pending)
  from createInvoice_stored [OF this] assms(4)
  show "createInvoice e fd w =
           (Redirected ''/dashboard/invoices'',
            \<lparr>invoices = invoices w @
               [\<lparr>invoice_id = fresh_id e (invoices w), customer_id = ''c1'',
                 amount = Fin 5000, status = ''pending'',
                 date = split_T_first (toISOString (now e))\<rparr>],
             events = events w @
               [Sql (INSERT ''c1'' (Fin 5000) ''pending'' (split_T_first (toISOString (now e)))),
                RevalidatePath ''/dashboard/invoices'', Redirect ''/dashboard/invoices'']\<rparr>)"
    by (simp add: cents_50)
next
  show "split_T_first (toISOString (now e)) =
           year_string (year (now e)) @ ''-'' @ pad 2 (month (now e)) @ ''-'' @
           pad 2 (day (now e))"
    by (rule date_part)
qed

theorem create_example_witness:
  "createInvoice env_up (form ''c1'' ''50'' ''pending'') one_row =
     (Redirected ''/dashboard/invoices'',
      \<lparr>invoices =
         [inv1,
          \<lparr>invoice_id = ''inv2'', customer_id = ''c1'', amount = Fin 5000,
            status = ''pending'', date = ''2026-11-03''\<rparr>],
       events =
         [Sql (INSERT ''c1'' (Fin 5000) ''pending'' ''2026-11-03''),
          RevalidatePath ''/dashboard/invoices'', Redirect ''/dashboard/invoices'']\<rparr>)"
  using create_example [of "form ''c1'' ''50'' ''pending''" env_up one_row, THEN conjunct1]
  by (simp add: env_up_def one_row_def get_form today_clock no_fault_def next_id_examples)

subsection \<open>Updating an invoice\<close>

text \<open>
  Claim C5. When the form is valid and the store accepts the update, the table after
  \<^verbatim>\<open>updateInvoice\<close> is the table before with \<^verbatim>\<open>customer_id\<close>, \<^verbatim>\<open>amount\<close> (the amount in
  cents) and \<^verbatim>\<open>status\<close> replaced on every row whose id is the given one. In every case, valid
  form or not, store failing or not, the columns \<^verbatim>\<open>date\<close> and \<^verbatim>\<open>id\<close> of all rows are as they
  were, and the rows with another id are unchanged.
\<close>

theorem update_frame:
  "(schema_parse (finite_only e) (get fd ''customerId'') (get fd ''amount'') (get fd ''status'')
      = Inr (c, a, s) \<and>
    store_fault e (UPDATE c (js_mul a (Fin 100)) s i) (invoices w) = None \<longrightarrow>
    invoices (snd (updateInvoice e i fd w)) =
      map (\<lambda>r. if invoice_id r = i
               then r\<lparr>customer_id := c, amount := js_mul a (Fin 100), status := s\<rparr>
               else r) (invoices w)) \<and>
   map date (invoices (snd (updateInvoice e i fd w))) = map date (invoices w) \<and>
   map invoice_id (invoices (snd (updateInvoice e i fd w))) = map invoice_id (invoices w) \<and>
   filter (\<lambda>r. invoice_id r \<noteq> i) (invoices (snd (updateInvoice e i fd w))) =
     filter (\<lambda>r. invoice_id r \<noteq> i) (invoices w)"
proof (intro conjI impI)
  assume "schema_parse (finite_only e) (get fd ''customerId'') (get fd ''amount'') (get fd ''status'')
      = Inr (c, a, s) \<and>
    store_fault e (UPDATE c (js_mul a (Fin 100)) s i) (invoices w) = None"
  then show "invoices (snd (updateInvoice e i fd w)) =
      map (\<lambda>r. if invoice_id r = i
               then r\<lparr>customer_id := c, amount := js_mul a (Fin 100), status := s\<rparr>
               else r) (invoices w)"
    by (simp add: updateInvoice_stored)
next
  show "map date (invoices (snd (updateInvoice e i fd w))) = map date (invoices w)"
    using updateInvoice_rows [of e i fd w] by (auto simp: comp_def)
next
  show "map invoice_id (invoices (snd (updateInvoice e i fd w))) = map invoice_id (invoices w)"
    using updateInvoice_rows [of e i fd w] by (auto simp: comp_def)
next
  show "filter (\<lambda>r. invoice_id r \<noteq> i) (invoices (snd (updateInvoice e i fd w))) =
     filter (\<lambda>r. invoice_id r \<noteq> i) (invoices w)"
    using updateInvoice_rows [of e i fd w] by (auto simp: run_update_others)
qed

theorem update_frame_witness:
  "invoices (snd (updateInvoice env_up ''inv1'' (form ''c2'' ''10.5'' ''paid'') one_row)) =
     [\<lparr>invoice_id = ''inv1'', customer_id = ''c2'', amount = Fin 1050, status = ''paid'',
       date = ''2026-10-31''\<rparr>] \<and>
   map date (invoices (snd (updateInvoice env_up ''inv1'' (form ''c2'' ''10.5'' ''paid'') one_row)))
     = [''2026-10-31''] \<and>
   map invoice_id (invoices (snd (updateInvoice env_up ''inv1'' (form ''c2'' ''10.5'' ''paid'') one_row)))
     = [''inv1''] \<and>
   filter (\<lambda>r. invoice_id r \<noteq> ''inv1'')
     (invoices (snd (updateInvoice env_up ''inv1'' (form ''c2'' ''10.5'' ''paid'') one_row))) = []"
  using update_frame [where e = env_up and i = "''inv1''" and fd = "form ''c2'' ''10.5'' ''paid''"
      and w = one_row and c = "''c2''" and a = "Fin (21 / 2)" and s = "''paid''"]
  by (simp add: env_up_def one_row_def inv1_def get_form parse_c2_10_5_paid cents_10_5
      no_fault_def)

subsection \<open>Deleting an invoice\<close>

text \<open>
  Claim C6. When the store accepts the delete, \<^verbatim>\<open>deleteInvoice\<close> removes the rows whose id is
  the given one, then revalidates \<^verbatim>\<open>/dashboard/invoices\<close>, and returns normally; no row with
  that id is left. When no row has that id the table is unchanged, and the action still
  returns normally after the revalidation. \<^verbatim>\<open>deleteInvoice\<close> never redirects, whatever the store
  does: its outcome is not \<open>Redirected\<close> and it adds no \<open>Redirect\<close> event.
\<close>

theorem delete_removes_row:
  "(store_fault e (DELETE i) (invoices w) = None \<longrightarrow>
      deleteInvoice e i w =
        (Returned,
         \<lparr>invoices = filter (\<lambda>r. invoice_id r \<noteq> i) (invoices w),
          events = events w @ [Sql (DELETE i), RevalidatePath ''/dashboard/invoices'']\<rparr>) \<and>
      i \<notin> set (map invoice_id (invoices (snd (deleteInvoice e i w))))) \<and>
   (store_fault e (DELETE i) (invoices w) = None \<and> i \<notin> set (map invoice_id (invoices w)) \<longrightarrow>
      deleteInvoice e i w =
        (Returned,
         \<lparr>invoices = invoices w,
          events = events w @ [Sql (DELETE i), RevalidatePath ''/dashboard/invoices'']\<rparr>)) \<and>
   (\<forall>p. fst (deleteInvoice e i w) \<noteq> Redirected p) \<and>
   (\<exists>new. events (snd (deleteInvoice e i w)) = events w @ new \<and>
      (\<forall>p. Redirect p \<notin> set new))"
proof (intro conjI impI allI)
  assume ok: "store_fault e (DELETE i) (invoices w) = None"
  then show "deleteInvoice e i w =
        (Returned,
         \<lparr>invoices = filter (\<lambda>r. invoice_id r \<noteq> i) (invoices w),
          events = events w @ [Sql (DELETE i), RevalidatePath ''/dashboard/invoices'']\<rparr>)"
    by (rule deleteInvoice_done)
  from ok show "i \<notin> set (map invoice_id (invoices (snd (deleteInvoice e i w))))"
    by (auto simp: deleteInvoice_done)
next
  assume "store_fault e (DELETE i) (invoices w) = None \<and> i \<notin> set (map invoice_id (invoices w))"
  then have ok: "store_fault e (DELETE i) (invoices w) = None"
    and "\<forall>r \<in> set (invoices w). invoice_id r \<noteq> i"
    by auto
  then have "filter (\<lambda>r. invoice_id r \<noteq> i) (invoices w) = invoices w"
    by (simp add: filter_id_conv)
  with ok show "deleteInvoice e i w =
        (Returned,
         \<lparr>invoices = invoices w,
          events = events w @ [Sql (DELETE i), RevalidatePath ''/dashboard/invoices'']\<rparr>)"
    by (simp add: deleteInvoice_done)
next
  fix p
  show "fst (deleteInvoice e i w) \<noteq> Redirected p"
    by (cases "store_fault e (DELETE i) (invoices w)")
       (simp_all add: deleteInvoice_done deleteInvoice_fault)
next
  show "\<exists>new. events (snd (deleteInvoice e i w)) = events w @ new \<and>
      (\<forall>p. Redirect p \<notin> set new)"
    by (cases "store_fault e (DELETE i) (invoices w)")
       (simp_all add: deleteInvoice_done deleteInvoice_fault)
qed

theorem delete_removes_row_witness:
  "deleteInvoice env_up ''inv1'' one_row =
     (Returned,
      \<lparr>invoices = [],
       events = [Sql (DELETE ''inv1''), RevalidatePath ''/dashboard/invoices'']\<rparr>) \<and>
   deleteInvoice env_up ''inv9'' one_row =
     (Returned,
      \<lparr>invoices = [inv1],
       events = [Sql (DELETE ''inv9''), RevalidatePath ''/dashboard/invoices'']\<rparr>)"
  using delete_removes_row [of env_up "''inv1''" one_row]
        delete_removes_row [of env_up "''inv9''" one_row]
  by (simp add: env_up_def one_row_def inv1_def no_fault_def)

subsection \<open>Updating an id that no row has\<close>

text \<open>
  Claim C7. Let the form be valid and let no row have the given id. Then \<^verbatim>\<open>updateInvoice\<close>
  leaves the table as it was, does not throw (it ends in the redirect to
  \<^verbatim>\<open>/dashboard/invoices\<close>), and its effects are the update statement, then (only if the
  store raised) the logged error, then the revalidation of \<^verbatim>\<open>/dashboard/invoices\<close> and the
  redirect.
\<close>

theorem update_unknown_id:
  assumes "schema_parse (finite_only e) (get fd ''customerId'') (get fd ''amount'')
             (get fd ''status'') = Inr (c, a, s)"
      and "i \<notin> set (map invoice_id (invoices w))"
  shows "fst (updateInvoice e i fd w) = Redirected ''/dashboard/invoices'' \<and>
         invoices (snd (updateInvoice e i fd w)) = invoices w \<and>
         events (snd (updateInvoice e i fd w)) =
           events w @ [Sql (UPDATE c (js_mul a (Fin 100)) s i)] @
           (case store_fault e (UPDATE c (js_mul a (Fin 100)) s i) (invoices w) of
              None \<Rightarrow> []
            | Some msg \<Rightarrow> [ConsoleError (PersistenceError msg)]) @
           [RevalidatePath ''/dashboard/invoices'', Redirect ''/dashboard/invoices'']"
proof -
  from assms(2) have "\<forall>r \<in> set (invoices w). invoice_id r \<noteq> i"
    by auto
  then have same:
    "map (\<lambda>r. if invoice_id r = i
             then r\<lparr>customer_id := c, amount := js_mul a (Fin 100), status := s\<rparr>
             else r) (invoices w) = invoices w"
    by (simp add: map_idI)
  show ?thesis
  proof (cases "store_fault e (UPDATE c (js_mul a (Fin 100)) s i) (invoices w)")
    case None
    with assms(1) same show ?thesis by (simp add: updateInvoice_stored)
  next
    case (Some msg)
    with assms(1) show ?thesis by (simp add: updateInvoice_fault)
  qed
qed

theorem update_unknown_id_witness:
  "updateInvoice env_up ''inv9'' (form ''c2'' ''10.5'' ''paid'') one_row =
     (Redirected ''/dashboard/invoices'',
      \<lparr>invoices = [inv1],
       events = [Sql (UPDATE ''c2'' (Fin 1050) ''paid'' ''inv9''),
                 RevalidatePath ''/dashboard/invoices'', Redirect ''/dashboard/invoices'']\<rparr>)"
proof -
  have "schema_parse (finite_only env_up) (get (form ''c2'' ''10.5'' ''paid'') ''customerId'')
          (get (form ''c2'' ''10.5'' ''paid'') ''amount'')
          (get (form ''c2'' ''10.5'' ''paid'') ''status'') = Inr (''c2'', Fin (21 / 2), ''paid'')"
    by (simp add: get_form parse_c2_10_5_paid)
  moreover have "''inv9'' \<notin> set (map invoice_id (invoices one_row))"
    by (simp add: one_row_def inv1_def)
  ultimately have
    "fst (updateInvoice env_up ''inv9'' (form ''c2'' ''10.5'' ''paid'') one_row)
       = Redirected ''/dashboard/invoices'' \<and>
     invoices (snd (updateInvoice env_up ''inv9'' (form ''c2'' ''10.5'' ''paid'') one_row))
       = invoices one_row \<and>
     events (snd (updateInvoice env_up ''inv9'' (form ''c2'' ''10.5'' ''paid'') one_row)) =
       events one_row @ [Sql (UPDATE ''c2'' (js_mul (Fin (21 / 2)) (Fin 100)) ''paid'' ''inv9'')] @
       (case store_fault env_up (UPDATE ''c2'' (js_mul (Fin (21 / 2)) (Fin 100)) ''paid'' ''inv9'')
               (invoices one_row) of
          None \<Rightarrow> []
        | Some msg \<Rightarrow> [ConsoleError (PersistenceError msg)]) @
       [RevalidatePath ''/dashboard/invoices'', Redirect ''/dashboard/invoices'']"
    by (rule update_unknown_id)
  then show ?thesis
    by (cases "updateInvoice env_up ''inv9'' (form ''c2'' ''10.5'' ''paid'') one_row")
       (simp add: env_up_def one_row_def cents_10_5 no_fault_def)
qed

subsection \<open>Validation of \<^verbatim>\<open>customerId\<close>\<close>

text \<open>
  Claim C8, as amended. The validator of \<^verbatim>\<open>customerId\<close> refuses a form value exactly when
  it is \<^verbatim>\<open>null\<close> (the field is absent) or a file; it accepts every string, the empty one
  included. Accordingly \<^verbatim>\<open>createInvoice\<close> and \<^verbatim>\<open>updateInvoice\<close> throw a \<^verbatim>\<open>ZodError\<close> that
  lists \<^verbatim>\<open>customerId\<close> exactly when the form's \<^verbatim>\<open>customerId\<close> is absent or a file.
\<close>

theorem customerId_validation:
  "(z_string v = None) = (v = Null \<or> v = File) \<and>
   z_string (Str cs) = Some cs \<and>
   (\<exists>names. createInvoice e fd w = (Thrown (ZodError names), w) \<and> ''customerId'' \<in> set names)
     = (get fd ''customerId'' = Null \<or> get fd ''customerId'' = File) \<and>
   (\<exists>names. updateInvoice e i fd w = (Thrown (ZodError names), w) \<and> ''customerId'' \<in> set names)
     = (get fd ''customerId'' = Null \<or> get fd ''customerId'' = File)"
proof (intro conjI)
  show "(z_string v = None) = (v = Null \<or> v = File)" by (rule z_string_iff)
  show "z_string (Str cs) = Some cs" by (simp add: z_string_def)
  let ?iss = "issues (finite_only e) (get fd ''customerId'') (get fd ''amount'') (get fd ''status'')"
  have mem: "(''customerId'' \<in> set ?iss) = (z_string (get fd ''customerId'') = None)"
    by (rule customerId_issue)
  have ne: "''customerId'' \<in> set ?iss \<Longrightarrow> ?iss \<noteq> []"
    by auto
  have "(\<exists>names. createInvoice e fd w = (Thrown (ZodError names), w) \<and> ''customerId'' \<in> set names)
        = (''customerId'' \<in> set ?iss)"
    using ne by (auto simp: createInvoice_thrown_iff)
  then show "(\<exists>names. createInvoice e fd w = (Thrown (ZodError names), w) \<and>
                ''customerId'' \<in> set names)
     = (get fd ''customerId'' = Null \<or> get fd ''customerId'' = File)"
    by (simp only: mem z_string_iff)
  have "(\<exists>names. updateInvoice e i fd w = (Thrown (ZodError names), w) \<and> ''customerId'' \<in> set names)
        = (''customerId'' \<in> set ?iss)"
    using ne by (auto simp: updateInvoice_thrown_iff)
  then show "(\<exists>names. updateInvoice e i fd w = (Thrown (ZodError names), w) \<and>
                ''customerId'' \<in> set names)
     = (get fd ''customerId'' = Null \<or> get fd ''customerId'' = File)"
    by (simp only: mem z_string_iff)
qed

theorem customerId_validation_witness:
  "z_string (Str '''') = Some '''' \<and> z_string Null = None \<and>
   (\<exists>names. createInvoice env_up [(''amount'', Str ''50''), (''status'', Str ''pending'')] no_rows
      = (Thrown (ZodError names), no_rows) \<and> ''customerId'' \<in> set names) \<and>
   \<not> (\<exists>names. createInvoice env_up (form '''' ''50'' ''pending'') no_rows
      = (Thrown (ZodError names), no_rows) \<and> ''customerId'' \<in> set names) \<and>
   \<not> (\<exists>names. updateInvoice env_up ''inv1'' (form '''' ''50'' ''pending'') one_row
      = (Thrown (ZodError names), one_row) \<and> ''customerId'' \<in> set names)"
proof -
  have g: "get [(''amount'', Str ''50''), (''status'', Str ''pending'')] ''customerId'' = Null"
    by (simp add: get_def)
  from customerId_validation [of Null "''''" env_up
          "[(''amount'', Str ''50''), (''status'', Str ''pending'')]" no_rows "''inv1''"]
  have 1: "z_string (Str '''') = Some '''' \<and> z_string Null = None \<and>
     (\<exists>names. createInvoice env_up [(''amount'', Str ''50''), (''status'', Str ''pending'')] no_rows
        = (Thrown (ZodError names), no_rows) \<and> ''customerId'' \<in> set names)"
    by (simp only: g) simp
  from customerId_validation [of Null "''''" env_up "form '''' ''50'' ''pending''" no_rows "''inv1''"]
  have 2: "\<not> (\<exists>names. createInvoice env_up (form '''' ''50'' ''pending'') no_rows
      = (Thrown (ZodError names), no_rows) \<and> ''customerId'' \<in> set names)"
    by (simp only: get_form) simp
  from customerId_validation [of Null "''''" env_up "form '''' ''50'' ''pending''" one_row "''inv1''"]
  have 3: "\<not> (\<exists>names. updateInvoice env_up ''inv1'' (form '''' ''50'' ''pending'') one_row
      = (Thrown (ZodError names), one_row) \<and> ''customerId'' \<in> set names)"
    by (simp only: get_form) simp
  from 1 2 3 show ?thesis by simp
qed

text \<open>
  The claim as first stated fails at the empty string: with \<^verbatim>\<open>customerId = ""\<close> both actions
  pass validation and write a row whose \<^verbatim>\<open>customer_id\<close> is empty.
\<close>

theorem empty_customerId_accepted:
  "createInvoice env_up (form '''' ''50'' ''pending'') no_rows =
     (Redirected ''/dashboard/invoices'',
      \<lparr>invoices =
         [\<lparr>invoice_id = ''inv1'', customer_id = '''', amount = Fin 5000, status = ''pending'',
           date = ''2026-11-03''\<rparr>],
       events =
         [Sql (INSERT '''' (Fin 5000) ''pending'' ''2026-11-03''),
          RevalidatePath ''/dashboard/invoices'', Redirect ''/dashboard/invoices'']\<rparr>) \<and>
   updateInvoice env_up ''inv1'' (form '''' ''50'' ''pending'') one_row =
     (Redirected ''/dashboard/invoices'',
      \<lparr>invoices =
         [\<lparr>invoice_id = ''inv1'', customer_id = '''', amount = Fin 5000, status = ''pending'',
           date = ''2026-10-31''\<rparr>],
       events =
         [Sql (UPDATE '''' (Fin 5000) ''pending'' ''inv1''),
          RevalidatePath ''/dashboard/invoices'', Redirect ''/dashboard/invoices'']\<rparr>) \<and>
   get (form '''' ''50'' ''pending'') ''customerId'' = Str ''''"
proof -
  have p: "schema_parse (finite_only env_up) (get (form '''' ''50'' ''pending'') ''customerId'')
          (get (form '''' ''50'' ''pending'') ''amount'')
          (get (form '''' ''50'' ''pending'') ''status'') = Inr ('''', Fin 50, ''pending'')"
    by (simp add: get_form parse_empty_50_pending)
  have "createInvoice env_up (form '''' ''50'' ''pending'') no_rows =
     (Redirected ''/dashboard/invoices'',
      \<lparr>invoices =
         [\<lparr>invoice_id = ''inv1'', customer_id = '''', amount = Fin 5000, status = ''pending'',
           date = ''2026-11-03''\<rparr>],
       events =
         [Sql (INSERT '''' (Fin 5000) ''pending'' ''2026-11-03''),
          RevalidatePath ''/dashboard/invoices'', Redirect ''/dashboard/invoices'']\<rparr>)"
    using createInvoice_valid [OF p, of no_rows]
    by (simp add: env_up_def no_rows_def no_fault_def cents_50 today_clock next_id_examples)
  moreover have "updateInvoice env_up ''inv1'' (form '''' ''50'' ''pending'') one_row =
     (Redirected ''/dashboard/invoices'',
      \<lparr>invoices =
         [\<lparr>invoice_id = ''inv1'', customer_id = '''', amount = Fin 5000, status = ''pending'',
           date = ''2026-10-31''\<rparr>],
       events =
         [Sql (UPDATE '''' (Fin 5000) ''pending'' ''inv1''),
          RevalidatePath ''/dashboard/invoices'', Redirect ''/dashboard/invoices'']\<rparr>)"
    using updateInvoice_valid [OF p, of "''inv1''" one_row]
    by (simp add: env_up_def one_row_def inv1_def no_fault_def cents_50)
  ultimately show ?thesis by (simp add: get_form)
qed

subsection \<open>The date of a created invoice\<close>

text \<open>
  Claim C9. Let the form be valid, let the store accept the insert, and let the clock read a
  UTC date with a year from 0 to 9999 (outside that range \<^verbatim>\<open>toISOString\<close> prints a sign and
  six digits), a month up to 12 and a day up to 31. Then \<^verbatim>\<open>createInvoice\<close> appends one row
  whose \<^verbatim>\<open>date\<close> is the clock's UTC date written \<^verbatim>\<open>YYYY-MM-DD\<close>: the year padded to four
  digits, the month and the day padded to two, joined by hyphens. The date does not come
  from the form: the action reads only \<^verbatim>\<open>customerId\<close>, \<^verbatim>\<open>amount\<close> and \<^verbatim>\<open>status\<close>, so a
  form that also carries a \<^verbatim>\<open>date\<close> or an \<^verbatim>\<open>id\<close> entry gives exactly the same result.
\<close>

theorem created_date_is_clock_date:
  assumes "schema_parse (finite_only e) (get fd ''customerId'') (get fd ''amount'')
             (get fd ''status'') = Inr (c, a, s)"
      and "store_fault e (INSERT c (js_mul a (Fin 100)) s (split_T_first (toISOString (now e))))
             (invoices w) = None"
      and "0 \<le> year (now e)" and "year (now e) \<le> 9999"
      and "month (now e) \<le> 12" and "day (now e) \<le> 31"
  shows "(\<exists>r. invoices (snd (createInvoice e fd w)) = invoices w @ [r] \<and>
              date r = pad 4 (nat (year (now e))) @ ''-'' @ pad 2 (month (now e)) @ ''-'' @
                       pad 2 (day (now e)) \<and>
              length (pad 4 (nat (year (now e)))) = 4 \<and>
              length (pad 2 (month (now e))) = 2 \<and>
              length (pad 2 (day (now e))) = 2 \<and>
              set (date r) \<subseteq> set ''0123456789-'') \<and>
         createInvoice e ((''date'', v) # fd) w = createInvoice e fd w \<and>
         createInvoice e ((''id'', v) # fd) w = createInvoice e fd w"
proof (intro conjI)
  let ?y = "pad 4 (nat (year (now e)))" and ?m = "pad 2 (month (now e))"
    and ?d = "pad 2 (day (now e))"
  let ?r = "\<lparr>invoice_id = fresh_id e (invoices w), customer_id = c,
             amount = js_mul a (Fin 100), status = s,
             date = split_T_first (toISOString (now e))\<rparr>"
  have rows: "invoices (snd (createInvoice e fd w)) = invoices w @ [?r]"
    using assms(1,2) by (simp add: createInvoice_stored)
  have "year_string (year (now e)) = ?y"
    using assms(3,4) by (simp add: year_string_def)
  then have d: "date ?r = ?y @ ''-'' @ ?m @ ''-'' @ ?d"
    by (simp add: date_part)
  have ly: "length ?y = 4"
    using assms(3,4) by (intro length_pad length_dec_4) simp
  have lm: "length ?m = 2"
    using assms(5) by (intro length_pad length_dec_2) simp
  have ld: "length ?d = 2"
    using assms(6) by (intro length_pad length_dec_2) simp
  have "set ?y \<subseteq> set ''0123456789''" "set ?m \<subseteq> set ''0123456789''"
    "set ?d \<subseteq> set ''0123456789''"
    by (rule pad_digits)+
  moreover have "set ''0123456789'' \<subseteq> set ''0123456789-''"
    by auto
  ultimately have "set ?y \<subseteq> set ''0123456789-''" "set ?m \<subseteq> set ''0123456789-''"
    "set ?d \<subseteq> set ''0123456789-''"
    by (blast intro: order_trans)+
  then have "set (?y @ ''-'' @ ?m @ ''-'' @ ?d) \<subseteq> set ''0123456789-''"
    by simp
  then have cs: "set (date ?r) \<subseteq> set ''0123456789-''"
    by (simp only: d)
  show "\<exists>r. invoices (snd (createInvoice e fd w)) = invoices w @ [r] \<and>
              date r = ?y @ ''-'' @ ?m @ ''-'' @ ?d \<and>
              length ?y = 4 \<and> length ?m = 2 \<and> length ?d = 2 \<and>
              set (date r) \<subseteq> set ''0123456789-''"
    using rows d ly lm ld cs by (intro exI [of _ ?r] conjI)
next
  show "createInvoice e ((''date'', v) # fd) w = createInvoice e fd w"
    by (rule createInvoice_reads_three) (simp_all add: get_other)
next
  show "createInvoice e ((''id'', v) # fd) w = createInvoice e fd w"
    by (rule createInvoice_reads_three) (simp_all add: get_other)
qed

theorem created_date_is_clock_date_witness:
  "map date (invoices (snd (createInvoice env_up
       ((''date'', Str ''1999-12-31'') # form ''c1'' ''50'' ''pending'') one_row)))
     = [''2026-10-31'', ''2026-11-03''] \<and>
   pad 4 (nat (year (now env_up))) @ ''-'' @ pad 2 (month (now env_up)) @ ''-'' @
     pad 2 (day (now env_up)) = ''2026-11-03''"
proof -
  have p: "schema_parse (finite_only env_up) (get (form ''c1'' ''50'' ''pending'') ''customerId'')
          (get (form ''c1'' ''50'' ''pending'') ''amount'')
          (get (form ''c1'' ''50'' ''pending'') ''status'') = Inr (''c1'', Fin 50, ''pending'')"
    by (simp add: get_form parse_c1_50_pending)
  have f: "store_fault env_up (INSERT ''c1'' (js_mul (Fin 50) (Fin 100)) ''pending''
             (split_T_first (toISOString (now env_up)))) (invoices one_row) = None"
    by (simp add: env_up_def no_fault_def)
  have t: "0 \<le> year (now env_up)" "year (now env_up) \<le> 9999"
    "month (now env_up) \<le> 12" "day (now env_up) \<le> 31"
    by (simp_all add: env_up_def clock_def)
  have pads: "pad 4 (nat (year (now env_up))) @ ''-'' @ pad 2 (month (now env_up)) @ ''-'' @
     pad 2 (day (now env_up)) = ''2026-11-03''"
    by (simp add: env_up_def clock_def pad_def dec.simps digit_char_def)
  from created_date_is_clock_date [OF p f t, of "Str ''1999-12-31''"] pads
  show ?thesis
    by (auto simp: one_row_def inv1_def)
qed

subsection \<open>An absent or empty \<^verbatim>\<open>amount\<close>\<close>

text \<open>
  Claim C10. Let the form have no \<^verbatim>\<open>amount\<close> entry, or the empty string as its \<^verbatim>\<open>amount\<close>.
  Then the coercion yields \<open>0\<close> and \<^verbatim>\<open>amount\<close> is never among the fields a \<^verbatim>\<open>ZodError\<close>
  lists; and when \<^verbatim>\<open>customerId\<close> and \<^verbatim>\<open>status\<close> are valid, \<^verbatim>\<open>createInvoice\<close> and
  \<^verbatim>\<open>updateInvoice\<close> go on to send their statement with the amount \<open>0\<close>, which is what the
  row holds when the store accepts it.
\<close>

theorem absent_amount_is_zero:
  assumes "map_of fd ''amount'' = None \<or> map_of fd ''amount'' = Some (Str '''')"
  shows "z_coerce_number fin (get fd ''amount'') = Some (Fin 0) \<and>
     ''amount'' \<notin> set (issues fin c' (get fd ''amount'') s') \<and>
     (z_string (get fd ''customerId'') = Some c \<and>
      z_enum [''pending'', ''paid''] (get fd ''status'') = Some s \<longrightarrow>
      createInvoice e fd w =
        (Redirected ''/dashboard/invoices'',
         \<lparr>invoices =
            (case store_fault e (INSERT c (Fin 0) s (split_T_first (toISOString (now e))))
                    (invoices w) of
               None \<Rightarrow> invoices w @
                 [\<lparr>invoice_id = fresh_id e (invoices w), customer_id = c, amount = Fin 0,
                   status = s, date = split_T_first (toISOString (now e))\<rparr>]
             | Some msg \<Rightarrow> invoices w),
          events = events w @
            [Sql (INSERT c (Fin 0) s (split_T_first (toISOString (now e))))] @
            (case store_fault e (INSERT c (Fin 0) s (split_T_first (toISOString (now e))))
                    (invoices w) of
               None \<Rightarrow> []
             | Some msg \<Rightarrow> [ConsoleError (PersistenceError msg)]) @
            [RevalidatePath ''/dashboard/invoices'', Redirect ''/dashboard/invoices'']\<rparr>) \<and>
      updateInvoice e i fd w =
        (Redirected ''/dashboard/invoices'',
         \<lparr>invoices =
            (case store_fault e (UPDATE c (Fin 0) s i) (invoices w) of
               None \<Rightarrow>
                 map (\<lambda>r. if invoice_id r = i
                          then r\<lparr>customer_id := c, amount := Fin 0, status := s\<rparr>
                          else r) (invoices w)
             | Some msg \<Rightarrow> invoices w),
          events = events w @
            [Sql (UPDATE c (Fin 0) s i)] @
            (case store_fault e (UPDATE c (Fin 0) s i) (invoices w) of
               None \<Rightarrow> []
             | Some msg \<Rightarrow> [ConsoleError (PersistenceError msg)]) @
            [RevalidatePath ''/dashboard/invoices'', Redirect ''/dashboard/invoices'']\<rparr>))"
proof -
  from assms have "get fd ''amount'' = Null \<or> get fd ''amount'' = Str ''''"
    by (auto simp: get_def)
  then have "Number (get fd ''amount'') = Fin 0"
    by (auto simp: Number_empty)
  then have z: "\<And>fin. z_coerce_number fin (get fd ''amount'') = Some (Fin 0)"
    by (simp add: z_coerce_number_def)
  then have iss: "''amount'' \<notin> set (issues fin c' (get fd ''amount'') s')"
    by (simp add: amount_issue)
  have "createInvoice e fd w = (Redirected ''/dashboard/invoices'',
         \<lparr>invoices =
            (case store_fault e (INSERT c (Fin 0) s (split_T_first (toISOString (now e))))
                    (invoices w) of
               None \<Rightarrow> invoices w @
                 [\<lparr>invoice_id = fresh_id e (invoices w), customer_id = c, amount = Fin 0,
                   status = s, date = split_T_first (toISOString (now e))\<rparr>]
             | Some msg \<Rightarrow> invoices w),
          events = events w @
            [Sql (INSERT c (Fin 0) s (split_T_first (toISOString (now e))))] @
            (case store_fault e (INSERT c (Fin 0) s (split_T_first (toISOString (now e))))
                    (invoices w) of
               None \<Rightarrow> []
             | Some msg \<Rightarrow> [ConsoleError (PersistenceError msg)]) @
            [RevalidatePath ''/dashboard/invoices'', Redirect ''/dashboard/invoices'']\<rparr>) \<and>
      updateInvoice e i fd w =
        (Redirected ''/dashboard/invoices'',
         \<lparr>invoices =
            (case store_fault e (UPDATE c (Fin 0) s i) (invoices w) of
               None \<Rightarrow>
                 map (\<lambda>r. if invoice_id r = i
                          then r\<lparr>customer_id := c, amount := Fin 0, status := s\<rparr>
                          else r) (invoices w)
             | Some msg \<Rightarrow> invoices w),
          events = events w @
            [Sql (UPDATE c (Fin 0) s i)] @
            (case store_fault e (UPDATE c (Fin 0) s i) (invoices w) of
               None \<Rightarrow> []
             | Some msg \<Rightarrow> [ConsoleError (PersistenceError msg)]) @
            [RevalidatePath ''/dashboard/invoices'', Redirect ''/dashboard/invoices'']\<rparr>)"
    if ok: "z_string (get fd ''customerId'') = Some c \<and>
      z_enum [''pending'', ''paid''] (get fd ''status'') = Some s"
  proof -
    from ok z [of "finite_only e"]
    have p: "schema_parse (finite_only e) (get fd ''customerId'') (get fd ''amount'')
               (get fd ''status'') = Inr (c, Fin 0, s)"
      by (simp add: schema_parse_Inr_iff)
    from createInvoice_valid [OF p, of w] updateInvoice_valid [OF p, of i w]
    show ?thesis by (simp only: cents_0)
  qed
  with z [of fin] iss show ?thesis by blast
qed

theorem absent_amount_is_zero_witness:
  "createInvoice env_up [(''customerId'', Str ''c1''), (''status'', Str ''pending'')] no_rows =
     (Redirected ''/dashboard/invoices'',
      \<lparr>invoices =
         [\<lparr>invoice_id = ''inv1'', customer_id = ''c1'', amount = Fin 0, status = ''pending'',
           date = ''2026-11-03''\<rparr>],
       events =
         [Sql (INSERT ''c1'' (Fin 0) ''pending'' ''2026-11-03''),
          RevalidatePath ''/dashboard/invoices'', Redirect ''/dashboard/invoices'']\<rparr>) \<and>
   updateInvoice env_up ''inv1'' (form ''c1'' '''' ''pending'') one_row =
     (Redirected ''/dashboard/invoices'',
      \<lparr>invoices =
         [\<lparr>invoice_id = ''inv1'', customer_id = ''c1'', amount = Fin 0, status = ''pending'',
           date = ''2026-10-31''\<rparr>],
       events =
         [Sql (UPDATE ''c1'' (Fin 0) ''pending'' ''inv1''),
          RevalidatePath ''/dashboard/invoices'', Redirect ''/dashboard/invoices'']\<rparr>)"
proof -
  have a: "map_of [(''customerId'', Str ''c1''), (''status'', Str ''pending'')] ''amount'' = None \<or>
           map_of [(''customerId'', Str ''c1''), (''status'', Str ''pending'')] ''amount''
             = Some (Str '''')"
    by simp
  have b: "map_of (form ''c1'' '''' ''pending'') ''amount'' = None \<or>
           map_of (form ''c1'' '''' ''pending'') ''amount'' = Some (Str '''')"
    by (simp add: form_def)
  from absent_amount_is_zero [OF a, of False Null Null "''c1''" "''pending''" env_up no_rows "''inv1''"]
  have "createInvoice env_up [(''customerId'', Str ''c1''), (''status'', Str ''pending'')] no_rows =
     (Redirected ''/dashboard/invoices'',
      \<lparr>invoices =
         [\<lparr>invoice_id = ''inv1'', customer_id = ''c1'', amount = Fin 0, status = ''pending'',
           date = ''2026-11-03''\<rparr>],
       events =
         [Sql (INSERT ''c1'' (Fin 0) ''pending'' ''2026-11-03''),
          RevalidatePath ''/dashboard/invoices'', Redirect ''/dashboard/invoices'']\<rparr>)"
    by (simp add: get_def z_string_def z_enum_def env_up_def no_rows_def no_fault_def today_clock
        next_id_examples)
  moreover
  from absent_amount_is_zero [OF b, of False Null Null "''c1''" "''pending''" env_up one_row "''inv1''"]
  have "updateInvoice env_up ''inv1'' (form ''c1'' '''' ''pending'') one_row =
     (Redirected ''/dashboard/invoices'',
      \<lparr>invoices =
         [\<lparr>invoice_id = ''inv1'', customer_id = ''c1'', amount = Fin 0, status = ''pending'',
           date = ''2026-10-31''\<rparr>],
       events =
         [Sql (UPDATE ''c1'' (Fin 0) ''pending'' ''inv1''),
          RevalidatePath ''/dashboard/invoices'', Redirect ''/dashboard/invoices'']\<rparr>)"
    by (simp add: get_form z_string_def z_enum_def env_up_def one_row_def inv1_def no_fault_def)
  ultimately show ?thesis by simp
qed

end
